theory Spec2Isabelle
  imports Main
begin

section \<open>The Gogs webhook: zerver/webhooks/gogs/view.py\<close>

text \<open>
  The view turns one webhook delivery (a JSON payload plus request headers) into at most
  one chat message. Everything the view imports from the rest of the code base (the
  typed field extractor, the message and topic templates, the branch filter, the header
  validation and the message delivery) is outside this file; those parts are either taken
  as parameters or modelled from the specification, and each such definition says so.

  Python strings are modelled as \<open>string\<close>; the characters stand for the code points
  below 256. Python integers are \<open>int\<close>. An exception is a value \<open>Inl e\<close> of the
  result type, a returned value is \<open>Inr v\<close>.
\<close>

subsection \<open>Errors and results\<close>

datatype error =
    SchemaViolation
  | IndexError
  | MissingHTTPEventHeaderError string
  | UnsupportedWebhookEventTypeError string

type_synonym 'a result = "error + 'a"

definition bind_res :: "'a result \<Rightarrow> ('a \<Rightarrow> 'b result) \<Rightarrow> 'b result" where
  "bind_res m f = (case m of Inl e \<Rightarrow> Inl e | Inr v \<Rightarrow> f v)"

text \<open>A list comprehension whose element expression may raise: left to right, stopping
  at the first exception.\<close>

fun map_res :: "('a \<Rightarrow> 'b result) \<Rightarrow> 'a list \<Rightarrow> 'b list result" where
  "map_res f [] = Inr []"
| "map_res f (x # xs) =
     bind_res (f x) (\<lambda>y. bind_res (map_res f xs) (\<lambda>ys. Inr (y # ys)))"

subsection \<open>Payloads and the field extractor\<close>

text \<open>
  A payload is a tree of JSON values. An object is an association list from keys to
  values, looked up with \<open>map_of\<close>; the keys of a parsed object are distinct. Numbers
  with a fractional part are left out: no extraction of this view accepts one, and in the
  one condition that looks at an unchecked value they would count like an integer, false
  exactly when zero.
\<close>

datatype json =
    JNull
  | JBool bool
  | JInt int
  | JStr string
  | JList "json list"
  | JDict "(string \<times> json) list"

text \<open>
  Modelled from the spec: the class \<open>WildValue\<close> and the validators \<open>check_string\<close>,
  \<open>check_int\<close>, \<open>check_bool\<close> of zerver/lib/validator.py are not part of the sources
  at hand. The specification (4.1, Field Extractor) gives their contract: a typed
  scalar is extracted at a named path, and the extraction fails with a schema violation
  when the path is missing or the value has the wrong type.
\<close>

definition getitem :: "json \<Rightarrow> string \<Rightarrow> json result" where
  "getitem v key =
     (case v of
        JDict kvs \<Rightarrow> (case map_of kvs key of None \<Rightarrow> Inl SchemaViolation | Some x \<Rightarrow> Inr x)
      | _ \<Rightarrow> Inl SchemaViolation)"

text \<open>\<open>path v [k1, k2]\<close> is the chained subscript \<open>v[k1][k2]\<close>.\<close>

fun path :: "json \<Rightarrow> string list \<Rightarrow> json result" where
  "path v [] = Inr v"
| "path v (k # ks) = bind_res (getitem v k) (\<lambda>x. path x ks)"

declare path.simps [simp del]

definition check_string :: "json \<Rightarrow> string result" where
  "check_string v = (case v of JStr s \<Rightarrow> Inr s | _ \<Rightarrow> Inl SchemaViolation)"

definition check_int :: "json \<Rightarrow> int result" where
  "check_int v = (case v of JInt i \<Rightarrow> Inr i | _ \<Rightarrow> Inl SchemaViolation)"

definition check_bool :: "json \<Rightarrow> bool result" where
  "check_bool v = (case v of JBool b \<Rightarrow> Inr b | _ \<Rightarrow> Inl SchemaViolation)"

text \<open>\<open>tame (path payload ks) check\<close> is \<open>payload[k1]...[kn].tame(check)\<close>.\<close>

definition tame :: "json result \<Rightarrow> (json \<Rightarrow> 'a result) \<Rightarrow> 'a result" where
  "tame w check = bind_res w check"

text \<open>Modelled from the spec: iterating over a wild value (\<open>for commit in commits\<close>)
  yields the elements of a list and is a schema violation on anything else.\<close>

definition iter :: "json \<Rightarrow> json list result" where
  "iter v = (case v of JList xs \<Rightarrow> Inr xs | _ \<Rightarrow> Inl SchemaViolation)"

text \<open>Modelled from the spec: the truth value of a wild value in a condition
  (\<open>if payload["action"] and ...\<close>) is Python's truth value of the wrapped JSON value:
  null, false, zero, the empty string, the empty list and the empty object are false.\<close>

definition truthy :: "json \<Rightarrow> bool" where
  "truthy v =
     (case v of
        JNull \<Rightarrow> False
      | JBool b \<Rightarrow> b
      | JInt i \<Rightarrow> i \<noteq> 0
      | JStr s \<Rightarrow> s \<noteq> []
      | JList xs \<Rightarrow> xs \<noteq> []
      | JDict kvs \<Rightarrow> kvs \<noteq> [])"

subsection \<open>Python string operations used by the view\<close>

text \<open>\<open>s.replace(old, new)\<close>: every non-overlapping occurrence of \<open>old\<close>, from the
  left, is replaced; with an empty \<open>old\<close>, \<open>new\<close> is put before every character and
  at the end.\<close>

function str_replace :: "string \<Rightarrow> string \<Rightarrow> string \<Rightarrow> string" where
  "str_replace old new s =
     (if old = [] then new @ concat (map (\<lambda>c. c # new) s)
      else if take (length old) s = old
        then new @ str_replace old new (drop (length old) s)
      else (case s of [] \<Rightarrow> [] | c # cs \<Rightarrow> c # str_replace old new cs))"
  by pat_completeness auto
termination
proof (relation "measure (\<lambda>(old, new, s). length s)")
  show "wf (measure (\<lambda>(old, new, s). length s))" by simp
next
  fix old new s :: string
  assume "old \<noteq> []" and "take (length old) s = old"
  then have "s \<noteq> []" by auto
  with \<open>old \<noteq> []\<close>
  show "((old, new, drop (length old) s), (old, new, s)) \<in> measure (\<lambda>(old, new, s). length s)"
    by simp
next
  fix old new s :: string and c cs
  assume "s = c # cs"
  then show "((old, new, cs), (old, new, s)) \<in> measure (\<lambda>(old, new, s). length s)"
    by simp
qed

declare str_replace.simps [simp del]

text \<open>\<open>str.isspace\<close> on the code points below 256.\<close>

definition isspace :: "char \<Rightarrow> bool" where
  "isspace c = (of_char c \<in> {9, 10, 11, 12, 13, 28, 29, 30, 31, 32, 133, 160 :: nat})"

text \<open>\<open>s.split()\<close>: the maximal runs of non-whitespace characters, in order.
  \<open>split_from cur s\<close> carries the token read so far.\<close>

fun split_from :: "string \<Rightarrow> string \<Rightarrow> string list" where
  "split_from cur [] = (if cur = [] then [] else [cur])"
| "split_from cur (c # cs) =
     (if isspace c then (if cur = [] then split_from [] cs else cur # split_from [] cs)
      else split_from (cur @ [c]) cs)"

definition str_split :: "string \<Rightarrow> string list" where
  "str_split s = split_from [] s"

text \<open>\<open>xs[0]\<close> raises IndexError on an empty list.\<close>

definition first :: "'a list \<Rightarrow> 'a result" where
  "first xs = (case xs of [] \<Rightarrow> Inl IndexError | x # _ \<Rightarrow> Inr x)"

text \<open>\<open>str(n)\<close> for an integer, as an f-string renders it.\<close>

function str_nat :: "nat \<Rightarrow> string" where
  "str_nat n =
     (if n < 10 then [''0123456789'' ! n] else str_nat (n div 10) @ [''0123456789'' ! (n mod 10)])"
  by pat_completeness auto
termination
  by (relation "measure id") auto

declare str_nat.simps [simp del]

definition str_int :: "int \<Rightarrow> string" where
  "str_int i = (if i < 0 then CHR ''-'' # str_nat (nat (- i)) else str_nat (nat i))"

subsection \<open>The collaborators of zerver/lib/webhooks/git.py\<close>

text \<open>
  The message functions and the topic templates are imported by the view and are not
  part of the sources at hand; the specification leaves their text open. They are
  parameters of the model. A call with keyword arguments of which some are optional in
  the callee is modelled by the list of the keywords the view passes.
\<close>

datatype kwarg = KNone | KStr string | KInt int

type_synonym kwargs = "(string \<times> kwarg) list"

text \<open>An optional string passed as a keyword argument.\<close>

definition kw_opt :: "string option \<Rightarrow> kwarg" where
  "kw_opt x = (case x of None \<Rightarrow> KNone | Some s \<Rightarrow> KStr s)"

text \<open>The dictionary built for one commit (keys name, sha, url, message).\<close>

record commit_summary =
  c_name :: string
  c_sha :: string
  c_url :: string
  c_message :: string

record git_lib =
  TOPIC_WITH_BRANCH_TEMPLATE :: "string \<Rightarrow> string \<Rightarrow> string"
  TOPIC_WITH_PR_OR_ISSUE_INFO_TEMPLATE :: "string \<Rightarrow> string \<Rightarrow> int \<Rightarrow> string \<Rightarrow> string"
  TOPIC_WITH_RELEASE_TEMPLATE :: "string \<Rightarrow> string \<Rightarrow> string \<Rightarrow> string"
  get_create_branch_event_message :: "string \<Rightarrow> string \<Rightarrow> string \<Rightarrow> string"
  get_issue_event_message :: "kwargs \<Rightarrow> string"
  get_pull_request_event_message :: "kwargs \<Rightarrow> string"
  get_push_commits_event_message ::
    "string \<Rightarrow> string \<Rightarrow> string \<Rightarrow> commit_summary list \<Rightarrow> string"
  get_release_event_message :: "string \<Rightarrow> string \<Rightarrow> string \<Rightarrow> string \<Rightarrow> string \<Rightarrow> string"
  branch_in_allow_list :: "string \<Rightarrow> string \<Rightarrow> bool"

text \<open>
  The arguments of the templates and message functions, in the order of the fields above:
  \<open>TOPIC_WITH_BRANCH_TEMPLATE repo branch\<close>,
  \<open>TOPIC_WITH_PR_OR_ISSUE_INFO_TEMPLATE repo type id title\<close>,
  \<open>TOPIC_WITH_RELEASE_TEMPLATE repo tag title\<close>,
  \<open>get_create_branch_event_message user_name url branch_name\<close>,
  \<open>get_push_commits_event_message user_name compare_url branch_name commits_data\<close>,
  \<open>get_release_event_message user_name action tagname release_name url\<close>.

  Modelled from the spec: \<open>is_branch_name_notifiable\<close> is not part of the sources at
  hand. The specification (4.3) fixes one case, "null allow-list = all branches pass";
  how a given allow-list string is read belongs to the branch filter and is the
  parameter \<open>branch_in_allow_list\<close>.
\<close>

definition is_branch_name_notifiable :: "git_lib \<Rightarrow> string \<Rightarrow> string option \<Rightarrow> bool" where
  "is_branch_name_notifiable lib branch branches =
     (case branches of None \<Rightarrow> True | Some allow_list \<Rightarrow> branch_in_allow_list lib branch allow_list)"

subsection \<open>Message formatters\<close>

definition get_issue_url :: "string \<Rightarrow> int \<Rightarrow> string" where
  "get_issue_url repo_url issue_nr = repo_url @ ''/issues/'' @ str_int issue_nr"

text \<open>The dictionary display inside the comprehension of
  \<open>_transform_commits_list_to_common_format\<close>, for one commit. The author's full name
  is only read when the username is empty.\<close>

definition transform_commit :: "json \<Rightarrow> commit_summary result" where
  "transform_commit commit =
     bind_res
       (bind_res (tame (path commit [''author'', ''username'']) check_string) (\<lambda>username.
          if username \<noteq> [] then Inr username
          else bind_res (tame (path commit [''author'', ''name'']) check_string) (\<lambda>full_name.
                 first (str_split full_name))))
       (\<lambda>name.
     bind_res (tame (path commit [''id'']) check_string) (\<lambda>sha.
     bind_res (tame (path commit [''url'']) check_string) (\<lambda>url.
     bind_res (tame (path commit [''message'']) check_string) (\<lambda>message.
     Inr \<lparr>c_name = name, c_sha = sha, c_url = url, c_message = message\<rparr>))))"

definition transform_commits_list_to_common_format :: "json \<Rightarrow> commit_summary list result" where
  "transform_commits_list_to_common_format commits =
     bind_res (iter commits) (map_res transform_commit)"

definition format_push_event :: "git_lib \<Rightarrow> json \<Rightarrow> string result" where
  "format_push_event lib payload =
     bind_res (tame (path payload [''sender'', ''username'']) check_string) (\<lambda>user_name.
     bind_res (tame (path payload [''compare_url'']) check_string) (\<lambda>compare_url.
     bind_res (tame (path payload [''ref'']) check_string) (\<lambda>ref.
     let branch_name = str_replace ''refs/heads/'' '''' ref in
     bind_res (path payload [''commits'']) (\<lambda>commits.
     bind_res (transform_commits_list_to_common_format commits) (\<lambda>commits_data.
     Inr (get_push_commits_event_message lib user_name compare_url branch_name commits_data))))))"

definition format_new_branch_event :: "git_lib \<Rightarrow> json \<Rightarrow> string result" where
  "format_new_branch_event lib payload =
     bind_res (tame (path payload [''ref'']) check_string) (\<lambda>branch_name.
     bind_res (tame (path payload [''repository'', ''html_url'']) check_string) (\<lambda>html_url.
     let url = html_url @ ''/src/'' @ branch_name in
     bind_res (tame (path payload [''sender'', ''username'']) check_string) (\<lambda>user_name.
     Inr (get_create_branch_event_message lib user_name url branch_name))))"

text \<open>The keyword arguments \<open>format_pull_request_event\<close> computes, in the order the
  function body computes them; the function itself passes them on to
  \<open>get_pull_request_event_message\<close>. The condition of the assignee expression is the
  truth value of \<open>payload["action"]\<close>, and only when that is true the truth value of
  \<open>payload["pull_request"]["assignee"]\<close>.\<close>

definition format_pull_request_event_args :: "json \<Rightarrow> bool \<Rightarrow> kwargs result" where
  "format_pull_request_event_args payload include_title =
     bind_res (tame (path payload [''pull_request'', ''merged'']) check_bool) (\<lambda>merged.
     bind_res
       (if merged
        then bind_res (tame (path payload [''pull_request'', ''merged_by'', ''username'']) check_string)
               (\<lambda>user_name. Inr (user_name, ''merged''))
        else bind_res (tame (path payload [''pull_request'', ''user'', ''username'']) check_string)
               (\<lambda>user_name.
             bind_res (tame (path payload [''action'']) check_string) (\<lambda>action.
             Inr (user_name, action))))
       (\<lambda>(user_name, action).
     bind_res (tame (path payload [''pull_request'', ''html_url'']) check_string) (\<lambda>url.
     bind_res (tame (path payload [''pull_request'', ''number'']) check_int) (\<lambda>number.
     bind_res
       (if action \<noteq> ''edited''
        then bind_res (tame (path payload [''pull_request'', ''head_branch'']) check_string)
               (\<lambda>target_branch.
             bind_res (tame (path payload [''pull_request'', ''base_branch'']) check_string)
               (\<lambda>base_branch. Inr (Some target_branch, Some base_branch)))
        else Inr (None, None))
       (\<lambda>(target_branch, base_branch).
     bind_res
       (if include_title
        then bind_res (tame (path payload [''pull_request'', ''title'']) check_string)
               (\<lambda>t. Inr (Some t))
        else Inr None)
       (\<lambda>title.
     bind_res
       (bind_res (path payload [''action'']) (\<lambda>action_value.
          if truthy action_value
          then bind_res (path payload [''pull_request'', ''assignee'']) (\<lambda>assignee.
                 if truthy assignee
                 then bind_res (tame (path payload [''pull_request'', ''assignee'', ''login''])
                                  check_string)
                        (\<lambda>login. Inr (Some login))
                 else Inr None)
          else Inr None))
       (\<lambda>stringified_assignee.
     Inr [(''user_name'', KStr user_name),
          (''action'', KStr action),
          (''url'', KStr url),
          (''number'', KInt number),
          (''target_branch'', kw_opt target_branch),
          (''base_branch'', kw_opt base_branch),
          (''title'', kw_opt title),
          (''assignee_updated'', kw_opt stringified_assignee)])))))))"

definition format_pull_request_event :: "git_lib \<Rightarrow> json \<Rightarrow> bool \<Rightarrow> string result" where
  "format_pull_request_event lib payload include_title =
     bind_res (format_pull_request_event_args payload include_title)
       (\<lambda>args. Inr (get_pull_request_event_message lib args))"

definition format_issues_event_args :: "json \<Rightarrow> bool \<Rightarrow> kwargs result" where
  "format_issues_event_args payload include_title =
     bind_res (tame (path payload [''issue'', ''number'']) check_int) (\<lambda>issue_nr.
     bind_res (path payload [''issue'', ''assignee'']) (\<lambda>assignee.
     bind_res
       (if truthy assignee
        then bind_res (tame (path assignee [''login'']) check_string) (\<lambda>login. Inr (Some login))
        else Inr None)
       (\<lambda>stringified_assignee.
     bind_res (tame (path payload [''action'']) check_string) (\<lambda>action.
     bind_res (tame (path payload [''sender'', ''login'']) check_string) (\<lambda>user_name.
     bind_res (tame (path payload [''action'']) check_string) (\<lambda>action_arg.
     bind_res (tame (path payload [''repository'', ''html_url'']) check_string) (\<lambda>html_url.
     bind_res (tame (path payload [''issue'', ''body'']) check_string) (\<lambda>message.
     bind_res
       (if include_title
        then bind_res (tame (path payload [''issue'', ''title'']) check_string)
               (\<lambda>t. Inr (Some t))
        else Inr None)
       (\<lambda>title.
     Inr [(''user_name'', KStr user_name),
          (''action'', KStr action_arg),
          (''url'', KStr (get_issue_url html_url issue_nr)),
          (''number'', KInt issue_nr),
          (''message'', KStr message),
          (''assignee'', kw_opt stringified_assignee),
          (''title'', kw_opt title),
          (''assignee_updated'',
             kw_opt (if action = ''assigned'' then stringified_assignee else None))])))))))))"

definition format_issues_event :: "git_lib \<Rightarrow> json \<Rightarrow> bool \<Rightarrow> string result" where
  "format_issues_event lib payload include_title =
     bind_res (format_issues_event_args payload include_title)
       (\<lambda>args. Inr (get_issue_event_message lib args))"

text \<open>The action text of a comment event: \<open>[commented]\<close> when the action is
  \<open>created\<close>, else the action followed by \<open>a [comment]\<close>; then the link to the
  comment. The view writes it out twice, in \<open>format_issue_comment_event\<close> and in
  \<open>handle_issue_comment_event\<close>.\<close>

definition comment_action_text :: "string \<Rightarrow> string \<Rightarrow> string" where
  "comment_action_text action html_url =
     (if action = ''created'' then ''[commented]'' else action @ '' a [comment]'')
     @ ''('' @ html_url @ '') on''"

definition format_issue_comment_event_args :: "json \<Rightarrow> bool \<Rightarrow> kwargs result" where
  "format_issue_comment_event_args payload include_title =
     bind_res (tame (path payload [''action'']) check_string) (\<lambda>action.
     bind_res (path payload [''comment'']) (\<lambda>comment.
     bind_res (path payload [''issue'']) (\<lambda>issue.
     bind_res (tame (path comment [''html_url'']) check_string) (\<lambda>comment_url.
     let action = comment_action_text action comment_url in
     bind_res (tame (path payload [''sender'', ''login'']) check_string) (\<lambda>user_name.
     bind_res (tame (path payload [''repository'', ''html_url'']) check_string) (\<lambda>html_url.
     bind_res (tame (path issue [''number'']) check_int) (\<lambda>url_number.
     bind_res (tame (path issue [''number'']) check_int) (\<lambda>number.
     bind_res (tame (path comment [''body'']) check_string) (\<lambda>message.
     bind_res
       (if include_title
        then bind_res (tame (path issue [''title'']) check_string) (\<lambda>t. Inr (Some t))
        else Inr None)
       (\<lambda>title.
     Inr [(''user_name'', KStr user_name),
          (''action'', KStr action),
          (''url'', KStr (get_issue_url html_url url_number)),
          (''number'', KInt number),
          (''message'', KStr message),
          (''title'', kw_opt title)]))))))))))"

definition format_issue_comment_event :: "git_lib \<Rightarrow> json \<Rightarrow> bool \<Rightarrow> string result" where
  "format_issue_comment_event lib payload include_title =
     bind_res (format_issue_comment_event_args payload include_title)
       (\<lambda>args. Inr (get_issue_event_message lib args))"

definition format_release_event :: "git_lib \<Rightarrow> json \<Rightarrow> bool \<Rightarrow> string result" where
  "format_release_event lib payload include_title =
     bind_res (tame (path payload [''release'', ''author'', ''username'']) check_string)
       (\<lambda>user_name.
     bind_res (tame (path payload [''action'']) check_string) (\<lambda>action.
     bind_res (tame (path payload [''release'', ''tag_name'']) check_string) (\<lambda>tagname.
     bind_res (tame (path payload [''release'', ''name'']) check_string) (\<lambda>release_name.
     bind_res (tame (path payload [''repository'', ''html_url'']) check_string) (\<lambda>url.
     Inr (get_release_event_message lib user_name action tagname release_name url))))))"

subsection \<open>Event handlers\<close>

text \<open>The class \<open>Helper\<close>: the payload, the branch allow-list, the topic override, the
  repository name resolved by the caller, the value of the disambiguating header, and
  the pull-request formatter handed in by the caller.\<close>

record Helper =
  h_payload :: json
  h_branches :: "string option"
  h_user_specified_topic :: "string option"
  h_repo :: string
  h_event_type :: string
  h_format_pull_request_event :: "json \<Rightarrow> bool \<Rightarrow> string result"

type_synonym handler_result = "(string option \<times> string option) result"

definition handle_push_event :: "git_lib \<Rightarrow> Helper \<Rightarrow> handler_result" where
  "handle_push_event lib helper =
     bind_res (tame (path (h_payload helper) [''ref'']) check_string) (\<lambda>ref.
     let branch = str_replace ''refs/heads/'' '''' ref in
     if \<not> is_branch_name_notifiable lib branch (h_branches helper) then Inr (None, None)
     else
       bind_res (format_push_event lib (h_payload helper)) (\<lambda>body.
       let topic_name = TOPIC_WITH_BRANCH_TEMPLATE lib (h_repo helper) branch in
       Inr (Some topic_name, Some body)))"

definition handle_create_event :: "git_lib \<Rightarrow> Helper \<Rightarrow> handler_result" where
  "handle_create_event lib helper =
     bind_res (format_new_branch_event lib (h_payload helper)) (\<lambda>body.
     bind_res (tame (path (h_payload helper) [''ref'']) check_string) (\<lambda>ref.
     let topic_name = TOPIC_WITH_BRANCH_TEMPLATE lib (h_repo helper) ref in
     Inr (Some topic_name, Some body)))"

definition handle_pull_request_event :: "git_lib \<Rightarrow> Helper \<Rightarrow> handler_result" where
  "handle_pull_request_event lib helper =
     bind_res (h_format_pull_request_event helper (h_payload helper)
                 (h_user_specified_topic helper \<noteq> None)) (\<lambda>body.
     bind_res (tame (path (h_payload helper) [''pull_request'', ''id'']) check_int) (\<lambda>pr_id.
     bind_res (tame (path (h_payload helper) [''pull_request'', ''title'']) check_string) (\<lambda>title.
     let topic_name = TOPIC_WITH_PR_OR_ISSUE_INFO_TEMPLATE lib (h_repo helper) ''PR'' pr_id title in
     Inr (Some topic_name, Some body))))"

definition handle_issues_event :: "git_lib \<Rightarrow> Helper \<Rightarrow> handler_result" where
  "handle_issues_event lib helper =
     bind_res (format_issues_event lib (h_payload helper)
                 (h_user_specified_topic helper \<noteq> None)) (\<lambda>body.
     bind_res (tame (path (h_payload helper) [''issue'', ''number'']) check_int) (\<lambda>issue_nr.
     bind_res (tame (path (h_payload helper) [''issue'', ''title'']) check_string) (\<lambda>title.
     let topic_name =
           TOPIC_WITH_PR_OR_ISSUE_INFO_TEMPLATE lib (h_repo helper) ''issue'' issue_nr title in
     Inr (Some topic_name, Some body))))"

text \<open>The keyword arguments of the call of \<open>get_pull_request_event_message\<close> that
  \<open>handle_issue_comment_event\<close> makes for a comment on a pull request.\<close>

definition pull_request_comment_args :: "json \<Rightarrow> kwargs result" where
  "pull_request_comment_args payload =
     bind_res (tame (path payload [''action'']) check_string) (\<lambda>action.
     bind_res (tame (path payload [''comment'', ''html_url'']) check_string) (\<lambda>comment_url.
     let action_text = comment_action_text action comment_url in
     bind_res (tame (path payload [''sender'', ''login'']) check_string) (\<lambda>user_name.
     bind_res (tame (path payload [''issue'', ''html_url'']) check_string) (\<lambda>url.
     bind_res (tame (path payload [''issue'', ''number'']) check_int) (\<lambda>number.
     bind_res (tame (path payload [''comment'', ''body'']) check_string) (\<lambda>message.
     bind_res (tame (path payload [''issue'', ''title'']) check_string) (\<lambda>title.
     Inr [(''user_name'', KStr user_name),
          (''action'', KStr action_text),
          (''url'', KStr url),
          (''number'', KInt number),
          (''message'', KStr message),
          (''type'', KStr ''PR''),
          (''title'', KStr title)])))))))"

definition handle_issue_comment_event :: "git_lib \<Rightarrow> Helper \<Rightarrow> handler_result" where
  "handle_issue_comment_event lib helper =
     bind_res
       (if h_event_type helper = ''pull_request_comment''
        then bind_res (pull_request_comment_args (h_payload helper)) (\<lambda>args.
               Inr (get_pull_request_event_message lib args, ''PR''))
        else bind_res (format_issue_comment_event lib (h_payload helper)
                         (h_user_specified_topic helper \<noteq> None)) (\<lambda>body.
               Inr (body, ''issue'')))
       (\<lambda>(body, topic_type).
     bind_res (tame (path (h_payload helper) [''repository'', ''name'']) check_string) (\<lambda>repo.
     bind_res (tame (path (h_payload helper) [''issue'', ''number'']) check_int) (\<lambda>issue_nr.
     bind_res (tame (path (h_payload helper) [''issue'', ''title'']) check_string) (\<lambda>title.
     let topic_name = TOPIC_WITH_PR_OR_ISSUE_INFO_TEMPLATE lib repo topic_type issue_nr title in
     Inr (Some topic_name, Some body)))))"

definition handle_release_event :: "git_lib \<Rightarrow> Helper \<Rightarrow> handler_result" where
  "handle_release_event lib helper =
     bind_res (format_release_event lib (h_payload helper)
                 (h_user_specified_topic helper \<noteq> None)) (\<lambda>body.
     bind_res (tame (path (h_payload helper) [''release'', ''tag_name'']) check_string) (\<lambda>tag.
     bind_res (tame (path (h_payload helper) [''release'', ''name'']) check_string) (\<lambda>title.
     let topic_name = TOPIC_WITH_RELEASE_TEMPLATE lib (h_repo helper) tag title in
     Inr (Some topic_name, Some body))))"

subsection \<open>The dispatch table and the dispatcher\<close>

definition GOGS_EVENT_FUNCTION_MAPPER :: "git_lib \<Rightarrow> string \<Rightarrow> (Helper \<Rightarrow> handler_result) option" where
  "GOGS_EVENT_FUNCTION_MAPPER lib =
     map_of [(''push'', handle_push_event lib),
             (''create'', handle_create_event lib),
             (''pull_request'', handle_pull_request_event lib),
             (''issues'', handle_issues_event lib),
             (''issue_comment'', handle_issue_comment_event lib),
             (''release'', handle_release_event lib)]"

definition ALL_EVENT_TYPES :: "string list" where
  "ALL_EVENT_TYPES =
     [''push'', ''create'', ''pull_request'', ''issues'', ''issue_comment'', ''release'']"

text \<open>
  Modelled from the spec: the request, \<open>validate_extract_webhook_http_header\<close> and
  \<open>check_send_webhook_message\<close> are not part of the sources at hand. By the
  specification (4.5, 6, 7) a request carries headers, the validation returns the value
  of a header or fails with a missing-header error, and the delivery is one call taking
  the recipient, the topic, the body and the event kind. A request is modelled by its
  header lookup, and a delivery by the message it hands over; the response of a
  successful call is the list of the messages delivered while handling it.
\<close>

type_synonym request = "string \<Rightarrow> string option"

definition validate_extract_webhook_http_header :: "request \<Rightarrow> string \<Rightarrow> string \<Rightarrow> string result" where
  "validate_extract_webhook_http_header request header integration_name =
     (case request header of
        None \<Rightarrow> Inl (MissingHTTPEventHeaderError header)
      | Some v \<Rightarrow> Inr v)"

record 'u message =
  m_recipient :: 'u
  m_topic_name :: string
  m_body :: string
  m_event :: string

definition check_send_webhook_message ::
  "request \<Rightarrow> 'u \<Rightarrow> string \<Rightarrow> string \<Rightarrow> string \<Rightarrow> 'u message" where
  "check_send_webhook_message request user_profile topic_name body event =
     \<lparr>m_recipient = user_profile, m_topic_name = topic_name, m_body = body, m_event = event\<rparr>"

text \<open>The truth value of an optional string in a condition (\<open>if topic_name and body\<close>):
  false for \<open>None\<close> and for the empty string.\<close>

definition nonempty :: "string option \<Rightarrow> bool" where
  "nonempty x = (case x of None \<Rightarrow> False | Some s \<Rightarrow> s \<noteq> [])"

text \<open>The dispatch proper, the last statement of \<open>gogs_webhook_main\<close>: look the handler
  up, call it, and deliver, succeed silently or fail.\<close>

definition gogs_dispatch ::
  "git_lib \<Rightarrow> request \<Rightarrow> 'u \<Rightarrow> Helper \<Rightarrow> string \<Rightarrow> 'u message list result" where
  "gogs_dispatch lib request user_profile helper event =
     (case GOGS_EVENT_FUNCTION_MAPPER lib event of
        Some handler \<Rightarrow>
          bind_res (handler helper) (\<lambda>(topic_name, body).
            if nonempty topic_name \<and> nonempty body
            then Inr [check_send_webhook_message request user_profile
                        (the topic_name) (the body) event]
            else if event = ''push'' then Inr []
            else Inl (UnsupportedWebhookEventTypeError event))
      | None \<Rightarrow> Inl (UnsupportedWebhookEventTypeError event))"

definition gogs_webhook_main ::
  "git_lib \<Rightarrow> string \<Rightarrow> string \<Rightarrow> (json \<Rightarrow> bool \<Rightarrow> string result) \<Rightarrow> request \<Rightarrow> 'u \<Rightarrow> json
     \<Rightarrow> string option \<Rightarrow> string option \<Rightarrow> 'u message list result" where
  "gogs_webhook_main lib integration_name http_header_name format_pull_request_event_arg
       request user_profile payload branches user_specified_topic =
     bind_res (tame (path payload [''repository'', ''name'']) check_string) (\<lambda>repo.
     bind_res (validate_extract_webhook_http_header request http_header_name integration_name)
       (\<lambda>event.
     bind_res
       (case validate_extract_webhook_http_header request ''x-gitea-event-type'' integration_name of
          Inl (MissingHTTPEventHeaderError h) \<Rightarrow> Inr ''default_event_type''
        | Inl e \<Rightarrow> Inl e
        | Inr v \<Rightarrow> Inr v)
       (\<lambda>event_type.
     let helper = \<lparr>h_payload = payload,
                   h_branches = branches,
                   h_user_specified_topic = user_specified_topic,
                   h_repo = repo,
                   h_event_type = event_type,
                   h_format_pull_request_event = format_pull_request_event_arg\<rparr>
     in gogs_dispatch lib request user_profile helper event)))"

text \<open>The statements of \<open>gogs_webhook_main\<close> before the dispatch: the repository name read
  from the payload, the event header, the disambiguating header with its default, and the
  helper built from them, returned together with the event kind.\<close>

definition gogs_helper ::
  "string \<Rightarrow> string \<Rightarrow> (json \<Rightarrow> bool \<Rightarrow> string result) \<Rightarrow> request \<Rightarrow> json
     \<Rightarrow> string option \<Rightarrow> string option \<Rightarrow> (Helper \<times> string) result" where
  "gogs_helper integration_name http_header_name format_pull_request_event_arg
       request payload branches user_specified_topic =
     bind_res (tame (path payload [''repository'', ''name'']) check_string) (\<lambda>repo.
     bind_res (validate_extract_webhook_http_header request http_header_name integration_name)
       (\<lambda>event.
     bind_res
       (case validate_extract_webhook_http_header request ''x-gitea-event-type'' integration_name of
          Inl (MissingHTTPEventHeaderError h) \<Rightarrow> Inr ''default_event_type''
        | Inl e \<Rightarrow> Inl e
        | Inr v \<Rightarrow> Inr v)
       (\<lambda>event_type.
     let helper = \<lparr>h_payload = payload,
                   h_branches = branches,
                   h_user_specified_topic = user_specified_topic,
                   h_repo = repo,
                   h_event_type = event_type,
                   h_format_pull_request_event = format_pull_request_event_arg\<rparr>
     in Inr (helper, event))))"

definition api_gogs_webhook ::
  "git_lib \<Rightarrow> request \<Rightarrow> 'u \<Rightarrow> json \<Rightarrow> string option \<Rightarrow> string option \<Rightarrow> 'u message list result" where
  "api_gogs_webhook lib request user_profile payload branches user_specified_topic =
     gogs_webhook_main lib ''Gogs'' ''X-Gogs-Event'' (format_pull_request_event lib)
       request user_profile payload branches user_specified_topic"

subsection \<open>Two readings taken from the specification's words\<close>

text \<open>The specification describes the branch of a push as the ref with a
  \<open>refs/heads/\<close> prefix stripped. This is that reading, to be compared with the
  \<open>str_replace\<close> of the view.\<close>

definition strip_refs_heads_prefix :: "string \<Rightarrow> string" where
  "strip_refs_heads_prefix ref =
     (if take (length ''refs/heads/'') ref = ''refs/heads/''
      then drop (length ''refs/heads/'') ref else ref)"

text \<open>The convention of the other handlers applied to comment events: the repository
  part of the topic is the name resolved by the caller (\<open>helper.repo\<close>) and is not read
  from the payload again. To be compared with \<open>handle_issue_comment_event\<close>.\<close>

definition handle_issue_comment_event_ctx :: "git_lib \<Rightarrow> Helper \<Rightarrow> handler_result" where
  "handle_issue_comment_event_ctx lib helper =
     bind_res
       (if h_event_type helper = ''pull_request_comment''
        then bind_res (pull_request_comment_args (h_payload helper)) (\<lambda>args.
               Inr (get_pull_request_event_message lib args, ''PR''))
        else bind_res (format_issue_comment_event lib (h_payload helper)
                         (h_user_specified_topic helper \<noteq> None)) (\<lambda>body.
               Inr (body, ''issue'')))
       (\<lambda>(body, topic_type).
     bind_res (Inr (h_repo helper)) (\<lambda>repo.
     bind_res (tame (path (h_payload helper) [''issue'', ''number'']) check_int) (\<lambda>issue_nr.
     bind_res (tame (path (h_payload helper) [''issue'', ''title'']) check_string) (\<lambda>title.
     let topic_name = TOPIC_WITH_PR_OR_ISSUE_INFO_TEMPLATE lib repo topic_type issue_nr title in
     Inr (Some topic_name, Some body)))))"

text \<open>The exceptions the field extraction and the commit transformation can raise.\<close>

definition data_errors :: "'a result \<Rightarrow> bool" where
  "data_errors m = (case m of Inl e \<Rightarrow> e = SchemaViolation \<or> e = IndexError | Inr v \<Rightarrow> True)"

subsection \<open>Sample collaborators, payloads and requests\<close>

text \<open>One instance of the collaborators and a few deliveries, on which the handlers are
  evaluated below. The general theorems hold for every instance of the collaborators.\<close>

definition render_args :: "kwargs \<Rightarrow> string" where
  "render_args args =
     concat (map (\<lambda>(k, v). '' '' @ k @ ''='' @
       (case v of KNone \<Rightarrow> ''None'' | KStr s \<Rightarrow> s | KInt i \<Rightarrow> str_int i)) args)"

definition sample_lib :: git_lib where
  "sample_lib =
     \<lparr>TOPIC_WITH_BRANCH_TEMPLATE = (\<lambda>repo branch. repo @ '' / '' @ branch),
      TOPIC_WITH_PR_OR_ISSUE_INFO_TEMPLATE =
        (\<lambda>repo type id title. repo @ '' / '' @ type @ '' #'' @ str_int id @ '' '' @ title),
      TOPIC_WITH_RELEASE_TEMPLATE = (\<lambda>repo tag title. repo @ '' / '' @ tag @ '' '' @ title),
      get_create_branch_event_message =
        (\<lambda>user_name url branch_name. user_name @ '' created '' @ branch_name @ '' '' @ url),
      get_issue_event_message = (\<lambda>args. ''issue:'' @ render_args args),
      get_pull_request_event_message = (\<lambda>args. ''PR:'' @ render_args args),
      get_push_commits_event_message =
        (\<lambda>user_name compare_url branch_name commits_data.
           user_name @ '' pushed to '' @ branch_name @ '':''
             @ concat (map (\<lambda>c. '' '' @ c_name c) commits_data)),
      get_release_event_message =
        (\<lambda>user_name action tagname release_name url.
           user_name @ '' '' @ action @ '' '' @ tagname @ '' '' @ release_name @ '' '' @ url),
      branch_in_allow_list = (\<lambda>branch allow_list. branch = allow_list)\<rparr>"

definition commit_of :: "string \<Rightarrow> string \<Rightarrow> json" where
  "commit_of username full_name =
     JDict [(''author'', JDict [(''username'', JStr username), (''name'', JStr full_name)]),
            (''id'', JStr ''abc123''),
            (''url'', JStr ''u''),
            (''message'', JStr ''fix bug'')]"



definition push_payload :: "string \<Rightarrow> json list \<Rightarrow> json" where
  "push_payload ref commits =
     JDict [(''ref'', JStr ref),
            (''compare_url'', JStr ''c''),
            (''sender'', JDict [(''username'', JStr ''alice'')]),
            (''repository'', JDict [(''name'', JStr ''repo''), (''html_url'', JStr ''r'')]),
            (''commits'', JList commits)]"

definition pr_payload :: "bool \<Rightarrow> json \<Rightarrow> json \<Rightarrow> json" where
  "pr_payload merged action assignee =
     JDict [(''action'', action),
            (''pull_request'',
               JDict [(''merged'', JBool merged),
                      (''merged_by'', JDict [(''username'', JStr ''bob'')]),
                      (''user'', JDict [(''username'', JStr ''alice'')]),
                      (''html_url'', JStr ''h''),
                      (''number'', JInt 7),
                      (''id'', JInt 70),
                      (''head_branch'', JStr ''feature''),
                      (''base_branch'', JStr ''main''),
                      (''title'', JStr ''T''),
                      (''assignee'', assignee)]),
            (''repository'', JDict [(''name'', JStr ''repo''), (''html_url'', JStr ''r'')])]"

definition issue_payload :: "string \<Rightarrow> json" where
  "issue_payload action =
     JDict [(''action'', JStr action),
            (''sender'', JDict [(''login'', JStr ''alice'')]),
            (''issue'',
               JDict [(''number'', JInt 5),
                      (''title'', JStr ''T''),
                      (''body'', JStr ''text''),
                      (''html_url'', JStr ''i''),
                      (''assignee'', JNull)]),
            (''comment'', JDict [(''html_url'', JStr ''k''), (''body'', JStr ''remark'')]),
            (''repository'', JDict [(''name'', JStr ''repo''), (''html_url'', JStr ''r'')])]"

definition sample_helper :: "json \<Rightarrow> string option \<Rightarrow> string option \<Rightarrow> string \<Rightarrow> Helper" where
  "sample_helper payload branches user_specified_topic event_type =
     \<lparr>h_payload = payload,
      h_branches = branches,
      h_user_specified_topic = user_specified_topic,
      h_repo = ''repo'',
      h_event_type = event_type,
      h_format_pull_request_event = format_pull_request_event sample_lib\<rparr>"

text \<open>A request with the event header and, possibly, the disambiguating header.\<close>

definition sample_request :: "string \<Rightarrow> string option \<Rightarrow> request" where
  "sample_request event event_type =
     (\<lambda>header. if header = ''X-Gogs-Event'' then Some event
               else if header = ''x-gitea-event-type'' then event_type
               else None)"

definition carol :: json where
  "carol = JDict [(''login'', JStr ''carol'')]"

definition assigned_pr_args :: kwargs where
  "assigned_pr_args =
     [(''user_name'', KStr ''alice''),
      (''action'', KStr ''assigned''),
      (''url'', KStr ''h''),
      (''number'', KInt 7),
      (''target_branch'', KStr ''feature''),
      (''base_branch'', KStr ''main''),
      (''title'', KNone),
      (''assignee_updated'', KStr ''carol'')]"

definition merged_pr_args :: kwargs where
  "merged_pr_args =
     [(''user_name'', KStr ''bob''),
      (''action'', KStr ''merged''),
      (''url'', KStr ''h''),
      (''number'', KInt 7),
      (''target_branch'', KStr ''feature''),
      (''base_branch'', KStr ''main''),
      (''title'', KNone),
      (''assignee_updated'', KNone)]"

definition open_pr_args :: kwargs where
  "open_pr_args =
     [(''user_name'', KStr ''alice''),
      (''action'', KStr ''opened''),
      (''url'', KStr ''h''),
      (''number'', KInt 7),
      (''target_branch'', KStr ''feature''),
      (''base_branch'', KStr ''main''),
      (''title'', KNone),
      (''assignee_updated'', KNone)]"

definition edited_pr_args :: kwargs where
  "edited_pr_args =
     [(''user_name'', KStr ''alice''),
      (''action'', KStr ''edited''),
      (''url'', KStr ''h''),
      (''number'', KInt 7),
      (''target_branch'', KNone),
      (''base_branch'', KNone),
      (''title'', KStr ''T''),
      (''assignee_updated'', KNone)]"

definition pr_without_action :: json where
  "pr_without_action =
     JDict [(''pull_request'',
               JDict [(''merged'', JBool True),
                      (''merged_by'', JDict [(''username'', JStr ''bob'')]),
                      (''user'', JDict [(''username'', JStr ''alice'')]),
                      (''html_url'', JStr ''h''),
                      (''number'', JInt 7),
                      (''id'', JInt 70),
                      (''head_branch'', JStr ''feature''),
                      (''base_branch'', JStr ''main''),
                      (''title'', JStr ''T''),
                      (''assignee'', JNull)]),
            (''repository'', JDict [(''name'', JStr ''repo''), (''html_url'', JStr ''r'')])]"

definition create_helper :: Helper where
  "create_helper = sample_helper (push_payload ''dev'' []) None None ''default_event_type''"

definition filtered_push_helper :: Helper where
  "filtered_push_helper =
     sample_helper (push_payload ''refs/heads/dev'' []) (Some ''main'') None ''default_event_type''"

definition titled_issue_helper :: Helper where
  "titled_issue_helper =
     sample_helper (issue_payload ''opened'') None (Some ''custom'') ''default_event_type''"

definition plain_comment_helper :: Helper where
  "plain_comment_helper =
     sample_helper (issue_payload ''created'') None None ''default_event_type''"

definition titled_pr_helper :: Helper where
  "titled_pr_helper =
     sample_helper (pr_payload False (JStr ''opened'') JNull) None (Some ''custom'')
       ''default_event_type''"

definition plain_pr_helper :: Helper where
  "plain_pr_helper =
     sample_helper (pr_payload False (JStr ''opened'') JNull) None None ''default_event_type''"



definition silent_formatter :: "json \<Rightarrow> bool \<Rightarrow> string result" where
  "silent_formatter payload include_title = Inr []"

definition silent_helper :: Helper where
  "silent_helper =
     \<lparr>h_payload = pr_payload False (JStr ''opened'') JNull,
      h_branches = None,
      h_user_specified_topic = None,
      h_repo = ''repo'',
      h_event_type = ''default_event_type'',
      h_format_pull_request_event = silent_formatter\<rparr>"

definition inner_ref_push :: json where
  "inner_ref_push = push_payload ''refs/heads/refs/heads/x'' []"

definition dev_push :: json where
  "dev_push = push_payload ''refs/heads/dev'' []"

definition created_message :: "unit message" where
  "created_message =
     \<lparr>m_recipient = (), m_topic_name = ''repo / dev'',
      m_body = ''alice created dev r/src/dev'', m_event = ''create''\<rparr>"

definition comment_message :: "unit message" where
  "comment_message =
     \<lparr>m_recipient = (), m_topic_name = ''repo / issue #5 T'',
      m_body = ''issue: user_name=alice action=[commented](k) on url=r/issues/5 number=5 message=remark title=None'',
      m_event = ''issue_comment''\<rparr>"

section \<open>Properties\<close>

subsection \<open>Results\<close>

lemma bind_res_Inl [simp]: "bind_res (Inl e) f = Inl e"
  by (simp add: bind_res_def)

lemma bind_res_Inr [simp]: "bind_res (Inr v) f = f v"
  by (simp add: bind_res_def)

lemma bind_res_eq_Inr: "bind_res m f = Inr y \<longleftrightarrow> (\<exists>v. m = Inr v \<and> f v = Inr y)"
  by (cases m) simp_all


lemma str_nat_digit: "n < 10 \<Longrightarrow> str_nat n = [''0123456789'' ! n]"
  by (subst str_nat.simps) simp

lemma str_nat_more:
  "\<not> n < 10 \<Longrightarrow> str_nat n = str_nat (n div 10) @ [''0123456789'' ! (n mod 10)]"
  by (subst str_nat.simps) simp

lemmas extract_defs = path.simps tame_def getitem_def check_string_def check_int_def
  check_bool_def iter_def truthy_def

lemmas sample_defs = sample_lib_def sample_helper_def sample_request_def commit_of_def
  push_payload_def pr_payload_def issue_payload_def render_args_def kw_opt_def
  get_issue_url_def str_int_def str_nat_digit str_nat_more

subsection \<open>The commit list of a push\<close>

lemma split_from_tokens:
  "t \<in> set (split_from cur s) \<Longrightarrow> \<forall>c \<in> set cur. \<not> isspace c \<Longrightarrow>
     t \<noteq> [] \<and> (\<forall>c \<in> set t. \<not> isspace c)"
proof (induction s arbitrary: cur)
  case Nil
  then show ?case by (cases "cur = []") simp_all
next
  case (Cons c cs)
  show ?case
  proof (cases "isspace c")
    case True
    show ?thesis
    proof (cases "cur = []")
      case True
      with \<open>isspace c\<close> Cons.prems(1) have "t \<in> set (split_from [] cs)" by simp
      then show ?thesis by (rule Cons.IH) simp
    next
      case False
      with \<open>isspace c\<close> Cons.prems(1) have "t = cur \<or> t \<in> set (split_from [] cs)" by simp
      then show ?thesis
      proof
        assume "t = cur"
        with False Cons.prems(2) show ?thesis by simp
      next
        assume "t \<in> set (split_from [] cs)"
        then show ?thesis by (rule Cons.IH) simp
      qed
    qed
  next
    case False
    with Cons.prems(1) have "t \<in> set (split_from (cur @ [c]) cs)" by simp
    then show ?thesis
    proof (rule Cons.IH)
      show "\<forall>x \<in> set (cur @ [c]). \<not> isspace x" using False Cons.prems(2) by simp
    qed
  qed
qed

lemma split_from_Nil: "split_from cur s = [] \<longleftrightarrow> cur = [] \<and> (\<forall>c \<in> set s. isspace c)"
  by (induction s arbitrary: cur) auto

text \<open>The tokens of \<open>s.split()\<close> are non-empty and free of whitespace, and there is
  none exactly when the string is empty or all whitespace.\<close>

lemma str_split_tokens:
  "t \<in> set (str_split s) \<Longrightarrow> t \<noteq> [] \<and> (\<forall>c \<in> set t. \<not> isspace c)"
  using split_from_tokens [of t "[]" s] by (simp add: str_split_def)

lemma str_split_Nil: "str_split s = [] \<longleftrightarrow> (\<forall>c \<in> set s. isspace c)"
  by (simp add: str_split_def split_from_Nil)




text \<open>
  Claim C10. There is a push payload on which every extraction of the push formatter
  finds a value of the type it asks for (the author's username is the empty string, the
  author's full name is blank) and the commit transformation, and with it the push
  formatter, raises IndexError: the first token of an empty split. The same happens
  when the full name is the empty string.
\<close>

theorem blank_author_name_index_error:
  "tame (path (push_payload ''refs/heads/main'' [commit_of [] ''  '']) [''sender'', ''username''])
       check_string = Inr ''alice'' \<and>
   tame (path (push_payload ''refs/heads/main'' [commit_of [] ''  '']) [''compare_url''])
       check_string = Inr ''c'' \<and>
   tame (path (push_payload ''refs/heads/main'' [commit_of [] ''  '']) [''ref''])
       check_string = Inr ''refs/heads/main'' \<and>
   path (push_payload ''refs/heads/main'' [commit_of [] ''  '']) [''commits'']
     = Inr (JList [commit_of [] ''  '']) \<and>
   tame (path (commit_of [] ''  '') [''author'', ''username'']) check_string = Inr [] \<and>
   tame (path (commit_of [] ''  '') [''author'', ''name'']) check_string = Inr ''  '' \<and>
   tame (path (commit_of [] ''  '') [''id'']) check_string = Inr ''abc123'' \<and>
   tame (path (commit_of [] ''  '') [''url'']) check_string = Inr ''u'' \<and>
   tame (path (commit_of [] ''  '') [''message'']) check_string = Inr ''fix bug'' \<and>
   transform_commits_list_to_common_format (JList [commit_of [] ''  '']) = Inl IndexError \<and>
   format_push_event lib (push_payload ''refs/heads/main'' [commit_of [] ''  '']) = Inl IndexError \<and>
   transform_commits_list_to_common_format (JList [commit_of [] []]) = Inl IndexError \<and>
   format_push_event lib (push_payload ''refs/heads/main'' [commit_of [] []]) = Inl IndexError"
  by (simp add: format_push_event_def transform_commits_list_to_common_format_def
      transform_commit_def push_payload_def commit_of_def extract_defs first_def
      str_split_def isspace_def)

subsection \<open>The pull-request formatter\<close>

lemma format_pull_request_event_args_Inr:
  assumes "format_pull_request_event_args payload include_title = Inr args"
  shows "\<exists>merged user_name action url number target_branch base_branch title stringified_assignee.
    tame (path payload [''pull_request'', ''merged'']) check_bool = Inr merged \<and>
    (if merged
     then bind_res (tame (path payload [''pull_request'', ''merged_by'', ''username'']) check_string)
            (\<lambda>user_name. Inr (user_name, ''merged''))
     else bind_res (tame (path payload [''pull_request'', ''user'', ''username'']) check_string)
            (\<lambda>user_name.
          bind_res (tame (path payload [''action'']) check_string) (\<lambda>action.
          Inr (user_name, action)))) = Inr (user_name, action) \<and>
    tame (path payload [''pull_request'', ''html_url'']) check_string = Inr url \<and>
    tame (path payload [''pull_request'', ''number'']) check_int = Inr number \<and>
    (if action \<noteq> ''edited''
     then bind_res (tame (path payload [''pull_request'', ''head_branch'']) check_string)
            (\<lambda>target_branch.
          bind_res (tame (path payload [''pull_request'', ''base_branch'']) check_string)
            (\<lambda>base_branch. Inr (Some target_branch, Some base_branch)))
     else Inr (None, None)) = Inr (target_branch, base_branch) \<and>
    (if include_title
     then bind_res (tame (path payload [''pull_request'', ''title'']) check_string)
            (\<lambda>t. Inr (Some t))
     else Inr None) = Inr title \<and>
    bind_res (path payload [''action'']) (\<lambda>action_value.
       if truthy action_value
       then bind_res (path payload [''pull_request'', ''assignee'']) (\<lambda>assignee.
              if truthy assignee
              then bind_res (tame (path payload [''pull_request'', ''assignee'', ''login''])
                               check_string)
                     (\<lambda>login. Inr (Some login))
              else Inr None)
       else Inr None) = Inr stringified_assignee \<and>
    args = [(''user_name'', KStr user_name),
            (''action'', KStr action),
            (''url'', KStr url),
            (''number'', KInt number),
            (''target_branch'', kw_opt target_branch),
            (''base_branch'', kw_opt base_branch),
            (''title'', kw_opt title),
            (''assignee_updated'', kw_opt stringified_assignee)]"
  using assms unfolding format_pull_request_event_args_def
  by (simp only: bind_res_eq_Inr split_paired_Ex prod.case) blast

lemma actor_and_action_iff:
  "(if merged then bind_res by_merger (\<lambda>user_name. Inr (user_name, ''merged''))
    else bind_res by_author (\<lambda>user_name.
           bind_res raw_action (\<lambda>action. Inr (user_name, action)))) = Inr (actor, action)
   \<longleftrightarrow>
   (if merged then action = ''merged'' \<and> by_merger = Inr actor
    else by_author = Inr actor \<and> raw_action = Inr action)"
  by (auto simp: bind_res_eq_Inr)

lemma branches_iff:
  "(if wanted
    then bind_res head_branch (\<lambda>target_branch.
           bind_res base_branch (\<lambda>base_branch. Inr (Some target_branch, Some base_branch)))
    else Inr (None, None)) = Inr (target, base)
   \<longleftrightarrow>
   (if wanted
    then \<exists>head_name base_name. head_branch = Inr head_name \<and> base_branch = Inr base_name \<and>
           target = Some head_name \<and> base = Some base_name
    else target = None \<and> base = None)"
  by (auto simp: bind_res_eq_Inr)

lemma title_iff:
  "(if include_title then bind_res m (\<lambda>t. Inr (Some t)) else Inr None) = Inr title
   \<longleftrightarrow> (if include_title then \<exists>t. m = Inr t \<and> title = Some t else title = None)"
  by (auto simp: bind_res_eq_Inr)

lemma guarded_note_iff:
  "(if guard
    then bind_res assignee_item (\<lambda>assignee.
           if truthy assignee then bind_res login_item (\<lambda>login. Inr (Some login))
           else Inr None)
    else Inr None) = Inr upd
   \<longleftrightarrow>
   (if guard
    then \<exists>assignee. assignee_item = Inr assignee \<and>
           (if truthy assignee then \<exists>login. login_item = Inr login \<and> upd = Some login
            else upd = None)
    else upd = None)"
  by (auto simp: bind_res_eq_Inr)

text \<open>
  Claim C6. The pull-request formatter returns exactly when the extractions it performs
  succeed, and then: if the pull request's merged flag is true, the action passed on is
  \<open>merged\<close> and the actor is the merger's username; otherwise the action is the
  payload's action string and the actor is the username of the pull request's author.
  The head and base branch names are extracted and passed on unless the resulting action
  is \<open>edited\<close>, in which case none is passed; for a merged pull request they are
  therefore always extracted. The action item of the payload is read in every case, by
  the guard of the assignee note, so it must be present also when the pull request is
  merged. The text returned is the message function applied to these keyword arguments.
\<close>

theorem pull_request_action_and_actor:
  "(format_pull_request_event_args payload include_title = Inr args \<longleftrightarrow>
     (\<exists>merged actor action url number target_branch base_branch title upd.
        tame (path payload [''pull_request'', ''merged'']) check_bool = Inr merged \<and>
        (if merged
         then action = ''merged'' \<and>
              tame (path payload [''pull_request'', ''merged_by'', ''username'']) check_string
                = Inr actor
         else tame (path payload [''pull_request'', ''user'', ''username'']) check_string
                = Inr actor \<and>
              tame (path payload [''action'']) check_string = Inr action) \<and>
        tame (path payload [''pull_request'', ''html_url'']) check_string = Inr url \<and>
        tame (path payload [''pull_request'', ''number'']) check_int = Inr number \<and>
        (if action \<noteq> ''edited''
         then \<exists>head_name base_name.
                tame (path payload [''pull_request'', ''head_branch'']) check_string
                  = Inr head_name \<and>
                tame (path payload [''pull_request'', ''base_branch'']) check_string
                  = Inr base_name \<and>
                target_branch = Some head_name \<and> base_branch = Some base_name
         else target_branch = None \<and> base_branch = None) \<and>
        (if include_title
         then \<exists>t. tame (path payload [''pull_request'', ''title'']) check_string = Inr t \<and>
                title = Some t
         else title = None) \<and>
        (\<exists>action_value. path payload [''action''] = Inr action_value \<and>
           (if truthy action_value
            then \<exists>assignee. path payload [''pull_request'', ''assignee''] = Inr assignee \<and>
                   (if truthy assignee
                    then \<exists>login.
                           tame (path payload [''pull_request'', ''assignee'', ''login''])
                             check_string = Inr login \<and>
                           upd = Some login
                    else upd = None)
            else upd = None)) \<and>
        args = [(''user_name'', KStr actor),
                (''action'', KStr action),
                (''url'', KStr url),
                (''number'', KInt number),
                (''target_branch'', kw_opt target_branch),
                (''base_branch'', kw_opt base_branch),
                (''title'', kw_opt title),
                (''assignee_updated'', kw_opt upd)])) \<and>
   (format_pull_request_event lib payload include_title = Inr shown \<longleftrightarrow>
     (\<exists>args. format_pull_request_event_args payload include_title = Inr args \<and>
        shown = get_pull_request_event_message lib args))"
proof (rule conjI)
  show "format_pull_request_event lib payload include_title = Inr shown \<longleftrightarrow>
     (\<exists>args. format_pull_request_event_args payload include_title = Inr args \<and>
        shown = get_pull_request_event_message lib args)"
    by (auto simp: format_pull_request_event_def bind_res_eq_Inr)
next
  show "format_pull_request_event_args payload include_title = Inr args \<longleftrightarrow>
     (\<exists>merged actor action url number target_branch base_branch title upd.
        tame (path payload [''pull_request'', ''merged'']) check_bool = Inr merged \<and>
        (if merged
         then action = ''merged'' \<and>
              tame (path payload [''pull_request'', ''merged_by'', ''username'']) check_string
                = Inr actor
         else tame (path payload [''pull_request'', ''user'', ''username'']) check_string
                = Inr actor \<and>
              tame (path payload [''action'']) check_string = Inr action) \<and>
        tame (path payload [''pull_request'', ''html_url'']) check_string = Inr url \<and>
        tame (path payload [''pull_request'', ''number'']) check_int = Inr number \<and>
        (if action \<noteq> ''edited''
         then \<exists>head_name base_name.
                tame (path payload [''pull_request'', ''head_branch'']) check_string
                  = Inr head_name \<and>
                tame (path payload [''pull_request'', ''base_branch'']) check_string
                  = Inr base_name \<and>
                target_branch = Some head_name \<and> base_branch = Some base_name
         else target_branch = None \<and> base_branch = None) \<and>
        (if include_title
         then \<exists>t. tame (path payload [''pull_request'', ''title'']) check_string = Inr t \<and>
                title = Some t
         else title = None) \<and>
        (\<exists>action_value. path payload [''action''] = Inr action_value \<and>
           (if truthy action_value
            then \<exists>assignee. path payload [''pull_request'', ''assignee''] = Inr assignee \<and>
                   (if truthy assignee
                    then \<exists>login.
                           tame (path payload [''pull_request'', ''assignee'', ''login''])
                             check_string = Inr login \<and>
                           upd = Some login
                    else upd = None)
            else upd = None)) \<and>
        args = [(''user_name'', KStr actor),
                (''action'', KStr action),
                (''url'', KStr url),
                (''number'', KInt number),
                (''target_branch'', kw_opt target_branch),
                (''base_branch'', kw_opt base_branch),
                (''title'', kw_opt title),
                (''assignee_updated'', kw_opt upd)])"
    unfolding format_pull_request_event_args_def
    by (simp only: bind_res_eq_Inr split_paired_Ex prod.case actor_and_action_iff branches_iff
        title_iff guarded_note_iff sum.inject) blast
qed

text \<open>A merged pull request whose action value is null (action \<open>merged\<close>, actor the
  merger, branches passed on), an open one with action \<open>opened\<close> (actor the author,
  branches passed on), an open one with action \<open>edited\<close> (no branch passed on), and a
  merged one without the action item, on which the formatter raises.\<close>

theorem pull_request_action_and_actor_witness:
  "format_pull_request_event_args (pr_payload True JNull JNull) False = Inr merged_pr_args \<and>
   (\<exists>merged actor action url number target_branch base_branch title upd.
      tame (path (pr_payload True JNull JNull) [''pull_request'', ''merged'']) check_bool = Inr merged \<and>
      (if merged
       then action = ''merged'' \<and>
            tame (path (pr_payload True JNull JNull) [''pull_request'', ''merged_by'', ''username'']) check_string
              = Inr actor
       else tame (path (pr_payload True JNull JNull) [''pull_request'', ''user'', ''username'']) check_string
              = Inr actor \<and>
            tame (path (pr_payload True JNull JNull) [''action'']) check_string = Inr action) \<and>
      tame (path (pr_payload True JNull JNull) [''pull_request'', ''html_url'']) check_string = Inr url \<and>
      tame (path (pr_payload True JNull JNull) [''pull_request'', ''number'']) check_int = Inr number \<and>
      (if action \<noteq> ''edited''
       then \<exists>head_name base_name.
              tame (path (pr_payload True JNull JNull) [''pull_request'', ''head_branch'']) check_string
                = Inr head_name \<and>
              tame (path (pr_payload True JNull JNull) [''pull_request'', ''base_branch'']) check_string
                = Inr base_name \<and>
              target_branch = Some head_name \<and> base_branch = Some base_name
       else target_branch = None \<and> base_branch = None) \<and>
      (if False
       then \<exists>t. tame (path (pr_payload True JNull JNull) [''pull_request'', ''title'']) check_string = Inr t \<and>
              title = Some t
       else title = None) \<and>
      (\<exists>action_value. path (pr_payload True JNull JNull) [''action''] = Inr action_value \<and>
         (if truthy action_value
          then \<exists>assignee. path (pr_payload True JNull JNull) [''pull_request'', ''assignee''] = Inr assignee \<and>
                 (if truthy assignee
                  then \<exists>login.
                         tame (path (pr_payload True JNull JNull) [''pull_request'', ''assignee'', ''login''])
                           check_string = Inr login \<and>
                         upd = Some login
                  else upd = None)
          else upd = None)) \<and>
      merged_pr_args = [(''user_name'', KStr actor),
              (''action'', KStr action),
              (''url'', KStr url),
              (''number'', KInt number),
              (''target_branch'', kw_opt target_branch),
              (''base_branch'', kw_opt base_branch),
              (''title'', kw_opt title),
              (''assignee_updated'', kw_opt upd)]) \<and>
   format_pull_request_event_args (pr_payload False (JStr ''opened'') JNull) False = Inr open_pr_args \<and>
   (\<exists>merged actor action url number target_branch base_branch title upd.
      tame (path (pr_payload False (JStr ''opened'') JNull) [''pull_request'', ''merged'']) check_bool = Inr merged \<and>
      (if merged
       then action = ''merged'' \<and>
            tame (path (pr_payload False (JStr ''opened'') JNull) [''pull_request'', ''merged_by'', ''username'']) check_string
              = Inr actor
       else tame (path (pr_payload False (JStr ''opened'') JNull) [''pull_request'', ''user'', ''username'']) check_string
              = Inr actor \<and>
            tame (path (pr_payload False (JStr ''opened'') JNull) [''action'']) check_string = Inr action) \<and>
      tame (path (pr_payload False (JStr ''opened'') JNull) [''pull_request'', ''html_url'']) check_string = Inr url \<and>
      tame (path (pr_payload False (JStr ''opened'') JNull) [''pull_request'', ''number'']) check_int = Inr number \<and>
      (if action \<noteq> ''edited''
       then \<exists>head_name base_name.
              tame (path (pr_payload False (JStr ''opened'') JNull) [''pull_request'', ''head_branch'']) check_string
                = Inr head_name \<and>
              tame (path (pr_payload False (JStr ''opened'') JNull) [''pull_request'', ''base_branch'']) check_string
                = Inr base_name \<and>
              target_branch = Some head_name \<and> base_branch = Some base_name
       else target_branch = None \<and> base_branch = None) \<and>
      (if False
       then \<exists>t. tame (path (pr_payload False (JStr ''opened'') JNull) [''pull_request'', ''title'']) check_string = Inr t \<and>
              title = Some t
       else title = None) \<and>
      (\<exists>action_value. path (pr_payload False (JStr ''opened'') JNull) [''action''] = Inr action_value \<and>
         (if truthy action_value
          then \<exists>assignee. path (pr_payload False (JStr ''opened'') JNull) [''pull_request'', ''assignee''] = Inr assignee \<and>
                 (if truthy assignee
                  then \<exists>login.
                         tame (path (pr_payload False (JStr ''opened'') JNull) [''pull_request'', ''assignee'', ''login''])
                           check_string = Inr login \<and>
                         upd = Some login
                  else upd = None)
          else upd = None)) \<and>
      open_pr_args = [(''user_name'', KStr actor),
              (''action'', KStr action),
              (''url'', KStr url),
              (''number'', KInt number),
              (''target_branch'', kw_opt target_branch),
              (''base_branch'', kw_opt base_branch),
              (''title'', kw_opt title),
              (''assignee_updated'', kw_opt upd)]) \<and>
   format_pull_request_event_args (pr_payload False (JStr ''edited'') JNull) True = Inr edited_pr_args \<and>
   (\<exists>merged actor action url number target_branch base_branch title upd.
      tame (path (pr_payload False (JStr ''edited'') JNull) [''pull_request'', ''merged'']) check_bool = Inr merged \<and>
      (if merged
       then action = ''merged'' \<and>
            tame (path (pr_payload False (JStr ''edited'') JNull) [''pull_request'', ''merged_by'', ''username'']) check_string
              = Inr actor
       else tame (path (pr_payload False (JStr ''edited'') JNull) [''pull_request'', ''user'', ''username'']) check_string
              = Inr actor \<and>
            tame (path (pr_payload False (JStr ''edited'') JNull) [''action'']) check_string = Inr action) \<and>
      tame (path (pr_payload False (JStr ''edited'') JNull) [''pull_request'', ''html_url'']) check_string = Inr url \<and>
      tame (path (pr_payload False (JStr ''edited'') JNull) [''pull_request'', ''number'']) check_int = Inr number \<and>
      (if action \<noteq> ''edited''
       then \<exists>head_name base_name.
              tame (path (pr_payload False (JStr ''edited'') JNull) [''pull_request'', ''head_branch'']) check_string
                = Inr head_name \<and>
              tame (path (pr_payload False (JStr ''edited'') JNull) [''pull_request'', ''base_branch'']) check_string
                = Inr base_name \<and>
              target_branch = Some head_name \<and> base_branch = Some base_name
       else target_branch = None \<and> base_branch = None) \<and>
      (if True
       then \<exists>t. tame (path (pr_payload False (JStr ''edited'') JNull) [''pull_request'', ''title'']) check_string = Inr t \<and>
              title = Some t
       else title = None) \<and>
      (\<exists>action_value. path (pr_payload False (JStr ''edited'') JNull) [''action''] = Inr action_value \<and>
         (if truthy action_value
          then \<exists>assignee. path (pr_payload False (JStr ''edited'') JNull) [''pull_request'', ''assignee''] = Inr assignee \<and>
                 (if truthy assignee
                  then \<exists>login.
                         tame (path (pr_payload False (JStr ''edited'') JNull) [''pull_request'', ''assignee'', ''login''])
                           check_string = Inr login \<and>
                         upd = Some login
                  else upd = None)
          else upd = None)) \<and>
      edited_pr_args = [(''user_name'', KStr actor),
              (''action'', KStr action),
              (''url'', KStr url),
              (''number'', KInt number),
              (''target_branch'', kw_opt target_branch),
              (''base_branch'', kw_opt base_branch),
              (''title'', kw_opt title),
              (''assignee_updated'', kw_opt upd)]) \<and>
   format_pull_request_event_args pr_without_action False = Inl SchemaViolation"
proof -
  have merged_run: "format_pull_request_event_args (pr_payload True JNull JNull) False = Inr merged_pr_args"
    by (simp add: format_pull_request_event_args_def pr_payload_def merged_pr_args_def
        extract_defs kw_opt_def)
  have opened_run: "format_pull_request_event_args (pr_payload False (JStr ''opened'') JNull) False = Inr open_pr_args"
    by (simp add: format_pull_request_event_args_def pr_payload_def open_pr_args_def
        extract_defs kw_opt_def)
  have edited_run: "format_pull_request_event_args (pr_payload False (JStr ''edited'') JNull) True = Inr edited_pr_args"
    by (simp add: format_pull_request_event_args_def pr_payload_def edited_pr_args_def
        extract_defs kw_opt_def)
  note merged_use = pull_request_action_and_actor
    [THEN conjunct1, THEN iffD1, OF merged_run]
  note opened_use = pull_request_action_and_actor
    [THEN conjunct1, THEN iffD1, OF opened_run]
  note edited_use = pull_request_action_and_actor
    [THEN conjunct1, THEN iffD1, OF edited_run]
  have no_action: "format_pull_request_event_args pr_without_action False = Inl SchemaViolation"
    by (simp add: format_pull_request_event_args_def pr_without_action_def extract_defs)
  from merged_run merged_use opened_run opened_use edited_run edited_use no_action
  show ?thesis by (intro conjI)
qed

text \<open>
  Claim C3, as the code has it. Whenever the pull-request formatter returns, the
  assignee-changed note it passes on is present exactly when the payload's action value
  is true in a condition (not null, not empty) and the pull request's assignee value is
  true in a condition; the note is then the assignee's login. The claim as stated,
  that an existing assignee alone decides, fails on a payload whose action value is
  null or empty.
\<close>

theorem assignee_note_needs_action:
  assumes "format_pull_request_event_args payload include_title = Inr args"
  shows "\<exists>action_value upd.
    path payload [''action''] = Inr action_value \<and>
    map_of args ''assignee_updated'' = Some (kw_opt upd) \<and>
    (upd \<noteq> None \<longleftrightarrow>
       truthy action_value \<and>
       (\<exists>assignee. path payload [''pull_request'', ''assignee''] = Inr assignee \<and>
          truthy assignee)) \<and>
    (\<forall>login. upd = Some login \<longrightarrow>
       tame (path payload [''pull_request'', ''assignee'', ''login'']) check_string = Inr login) \<and>
    format_pull_request_event lib payload include_title
      = Inr (get_pull_request_event_message lib args)"
proof -
  let ?login =
    "bind_res (tame (path payload [''pull_request'', ''assignee'', ''login'']) check_string)
       (\<lambda>login. Inr (Some login))"
  let ?assignee = "\<lambda>assignee. if truthy assignee then ?login else Inr None"
  from format_pull_request_event_args_Inr [OF assms]
  obtain user_name action url number target_branch base_branch title upd
    where upd: "bind_res (path payload [''action'']) (\<lambda>action_value.
                   if truthy action_value
                   then bind_res (path payload [''pull_request'', ''assignee'']) ?assignee
                   else Inr None) = Inr upd"
      and args: "args = [(''user_name'', KStr user_name),
            (''action'', KStr action),
            (''url'', KStr url),
            (''number'', KInt number),
            (''target_branch'', kw_opt target_branch),
            (''base_branch'', kw_opt base_branch),
            (''title'', kw_opt title),
            (''assignee_updated'', kw_opt upd)]"
    by blast
  from upd obtain action_value where
    action_value: "path payload [''action''] = Inr action_value"
    and guarded: "(if truthy action_value
                   then bind_res (path payload [''pull_request'', ''assignee'']) ?assignee
                   else Inr None) = Inr upd"
    unfolding bind_res_eq_Inr by blast
  have passed: "map_of args ''assignee_updated'' = Some (kw_opt upd)"
    by (simp add: args)
  have formatted: "format_pull_request_event lib payload include_title
      = Inr (get_pull_request_event_message lib args)"
    by (simp add: format_pull_request_event_def assms)
  show ?thesis
  proof (cases "truthy action_value")
    case False
    with guarded have "upd = None" by simp
    with False action_value passed formatted show ?thesis by auto
  next
    case True
    with guarded
    have "bind_res (path payload [''pull_request'', ''assignee'']) ?assignee = Inr upd"
      by simp
    then obtain assignee where
      assignee: "path payload [''pull_request'', ''assignee''] = Inr assignee"
      and inner: "?assignee assignee = Inr upd"
      unfolding bind_res_eq_Inr by blast
    show ?thesis
    proof (cases "truthy assignee")
      case False
      with inner have "upd = None" by simp
      with False assignee action_value passed formatted show ?thesis by auto
    next
      case truthy_assignee: True
      with inner have "?login = Inr upd" by simp
      then obtain login where
        "tame (path payload [''pull_request'', ''assignee'', ''login'']) check_string = Inr login"
        "upd = Some login"
        unfolding bind_res_eq_Inr by auto
      with True truthy_assignee assignee action_value passed formatted show ?thesis by auto
    qed
  qed
qed

text \<open>An open pull request with action \<open>assigned\<close> and the assignee carol: the note is
  carol's login.\<close>

theorem assignee_note_needs_action_witness:
  "format_pull_request_event_args (pr_payload False (JStr ''assigned'') carol) False
     = Inr assigned_pr_args \<and>
   (\<exists>action_value upd.
    path (pr_payload False (JStr ''assigned'') carol) [''action''] = Inr action_value \<and>
    map_of assigned_pr_args ''assignee_updated'' = Some (kw_opt upd) \<and>
    (upd \<noteq> None \<longleftrightarrow>
       truthy action_value \<and>
       (\<exists>assignee.
          path (pr_payload False (JStr ''assigned'') carol) [''pull_request'', ''assignee'']
            = Inr assignee \<and>
          truthy assignee)) \<and>
    (\<forall>login. upd = Some login \<longrightarrow>
       tame (path (pr_payload False (JStr ''assigned'') carol)
               [''pull_request'', ''assignee'', ''login'']) check_string = Inr login) \<and>
    format_pull_request_event sample_lib (pr_payload False (JStr ''assigned'') carol) False
      = Inr (get_pull_request_event_message sample_lib assigned_pr_args))"
proof -
  have run: "format_pull_request_event_args (pr_payload False (JStr ''assigned'') carol) False
               = Inr assigned_pr_args"
    by (simp add: format_pull_request_event_args_def pr_payload_def assigned_pr_args_def
        carol_def extract_defs kw_opt_def)
  from run assignee_note_needs_action [OF run] show ?thesis by (rule conjI)
qed

text \<open>The claim C3 as stated fails: on a merged pull request whose action value is
  null, and on an open one whose action is the empty string, an assignee exists on the
  payload and no assignee-changed note is passed on.\<close>

theorem assignee_note_dropped_counterexample:
  "path (pr_payload True JNull carol) [''pull_request'', ''assignee''] = Inr carol \<and>
   truthy carol \<and>
   tame (path carol [''login'']) check_string = Inr ''carol'' \<and>
   format_pull_request_event_args (pr_payload True JNull carol) False
     = Inr [(''user_name'', KStr ''bob''),
            (''action'', KStr ''merged''),
            (''url'', KStr ''h''),
            (''number'', KInt 7),
            (''target_branch'', KStr ''feature''),
            (''base_branch'', KStr ''main''),
            (''title'', KNone),
            (''assignee_updated'', KNone)] \<and>
   path (pr_payload False (JStr []) carol) [''pull_request'', ''assignee''] = Inr carol \<and>
   format_pull_request_event_args (pr_payload False (JStr []) carol) False
     = Inr [(''user_name'', KStr ''alice''),
            (''action'', KStr []),
            (''url'', KStr ''h''),
            (''number'', KInt 7),
            (''target_branch'', KStr ''feature''),
            (''base_branch'', KStr ''main''),
            (''title'', KNone),
            (''assignee_updated'', KNone)]"
  by (simp add: format_pull_request_event_args_def pr_payload_def carol_def
      extract_defs kw_opt_def)

subsection \<open>Titles and handlers\<close>

lemma optional_title:
  assumes "(if include_title then bind_res m (\<lambda>t. Inr (Some t)) else Inr None) = Inr title"
  shows "(include_title \<longrightarrow> (\<exists>t. m = Inr t \<and> title = Some t)) \<and>
         (\<not> include_title \<longrightarrow> title = None)"
  using assms by (cases include_title) (auto simp: bind_res_eq_Inr)

lemma format_issues_event_args_title:
  assumes "format_issues_event_args payload include_title = Inr args"
  shows "(include_title \<longrightarrow>
            (\<exists>t. tame (path payload [''issue'', ''title'']) check_string = Inr t \<and>
                 map_of args ''title'' = Some (KStr t))) \<and>
         (\<not> include_title \<longrightarrow> map_of args ''title'' = Some KNone)"
proof -
  from assms obtain title where
    title: "(if include_title
             then bind_res (tame (path payload [''issue'', ''title'']) check_string)
                    (\<lambda>t. Inr (Some t))
             else Inr None) = Inr title"
    and passed: "map_of args ''title'' = Some (kw_opt title)"
    unfolding format_issues_event_args_def
    by (simp only: bind_res_eq_Inr) auto
  from optional_title [OF title] passed show ?thesis
    by (auto simp: kw_opt_def)
qed


lemma format_pull_request_event_args_title:
  assumes "format_pull_request_event_args payload include_title = Inr args"
  shows "(include_title \<longrightarrow>
            (\<exists>t. tame (path payload [''pull_request'', ''title'']) check_string = Inr t \<and>
                 map_of args ''title'' = Some (KStr t))) \<and>
         (\<not> include_title \<longrightarrow> map_of args ''title'' = Some KNone)"
proof -
  from assms obtain title where
    title: "(if include_title
             then bind_res (tame (path payload [''pull_request'', ''title'']) check_string)
                    (\<lambda>t. Inr (Some t))
             else Inr None) = Inr title"
    and passed: "map_of args ''title'' = Some (kw_opt title)"
    unfolding format_pull_request_event_args_def
    by (simp only: bind_res_eq_Inr split_paired_Ex prod.case) auto
  from optional_title [OF title] passed show ?thesis
    by (auto simp: kw_opt_def)
qed


lemma handle_push_event_Inr:
  assumes "handle_push_event lib helper = Inr (topic, body)"
  shows "\<exists>ref. tame (path (h_payload helper) [''ref'']) check_string = Inr ref \<and>
    (if \<not> is_branch_name_notifiable lib (str_replace ''refs/heads/'' [] ref) (h_branches helper)
     then topic = None \<and> body = None
     else \<exists>text. format_push_event lib (h_payload helper) = Inr text \<and>
            topic = Some (TOPIC_WITH_BRANCH_TEMPLATE lib (h_repo helper)
                            (str_replace ''refs/heads/'' [] ref)) \<and>
            body = Some text)"
  using assms unfolding handle_push_event_def
  by (auto simp: bind_res_eq_Inr Let_def split: if_splits)

lemma handle_create_event_Inr:
  assumes "handle_create_event lib helper = Inr (topic, body)"
  shows "\<exists>text ref. format_new_branch_event lib (h_payload helper) = Inr text \<and>
           tame (path (h_payload helper) [''ref'']) check_string = Inr ref \<and>
           topic = Some (TOPIC_WITH_BRANCH_TEMPLATE lib (h_repo helper) ref) \<and>
           body = Some text"
  using assms unfolding handle_create_event_def
  by (auto simp: bind_res_eq_Inr Let_def)

lemma handle_pull_request_event_Inr:
  assumes "handle_pull_request_event lib helper = Inr (topic, body)"
  shows "\<exists>text pr_id title.
           h_format_pull_request_event helper (h_payload helper)
             (h_user_specified_topic helper \<noteq> None) = Inr text \<and>
           tame (path (h_payload helper) [''pull_request'', ''id'']) check_int = Inr pr_id \<and>
           tame (path (h_payload helper) [''pull_request'', ''title'']) check_string = Inr title \<and>
           topic = Some (TOPIC_WITH_PR_OR_ISSUE_INFO_TEMPLATE lib (h_repo helper) ''PR'' pr_id title) \<and>
           body = Some text"
  using assms unfolding handle_pull_request_event_def
  by (auto simp: bind_res_eq_Inr Let_def)

lemma handle_issues_event_Inr:
  assumes "handle_issues_event lib helper = Inr (topic, body)"
  shows "\<exists>text issue_nr title.
           format_issues_event lib (h_payload helper)
             (h_user_specified_topic helper \<noteq> None) = Inr text \<and>
           tame (path (h_payload helper) [''issue'', ''number'']) check_int = Inr issue_nr \<and>
           tame (path (h_payload helper) [''issue'', ''title'']) check_string = Inr title \<and>
           topic = Some (TOPIC_WITH_PR_OR_ISSUE_INFO_TEMPLATE lib (h_repo helper) ''issue''
                           issue_nr title) \<and>
           body = Some text"
  using assms unfolding handle_issues_event_def
  by (auto simp: bind_res_eq_Inr Let_def)

lemma handle_issue_comment_event_Inr:
  assumes "handle_issue_comment_event lib helper = Inr (topic, body)"
  shows "\<exists>text topic_type repo issue_nr title.
           (if h_event_type helper = ''pull_request_comment''
            then (\<exists>args. pull_request_comment_args (h_payload helper) = Inr args \<and>
                    text = get_pull_request_event_message lib args \<and> topic_type = ''PR'')
            else format_issue_comment_event lib (h_payload helper)
                   (h_user_specified_topic helper \<noteq> None) = Inr text \<and> topic_type = ''issue'') \<and>
           tame (path (h_payload helper) [''repository'', ''name'']) check_string = Inr repo \<and>
           tame (path (h_payload helper) [''issue'', ''number'']) check_int = Inr issue_nr \<and>
           tame (path (h_payload helper) [''issue'', ''title'']) check_string = Inr title \<and>
           topic = Some (TOPIC_WITH_PR_OR_ISSUE_INFO_TEMPLATE lib repo topic_type issue_nr title) \<and>
           body = Some text"
  using assms unfolding handle_issue_comment_event_def
  by (auto simp: bind_res_eq_Inr Let_def split: if_splits)

lemma handle_release_event_Inr:
  assumes "handle_release_event lib helper = Inr (topic, body)"
  shows "\<exists>text tag title.
           format_release_event lib (h_payload helper)
             (h_user_specified_topic helper \<noteq> None) = Inr text \<and>
           tame (path (h_payload helper) [''release'', ''tag_name'']) check_string = Inr tag \<and>
           tame (path (h_payload helper) [''release'', ''name'']) check_string = Inr title \<and>
           topic = Some (TOPIC_WITH_RELEASE_TEMPLATE lib (h_repo helper) tag title) \<and>
           body = Some text"
  using assms unfolding handle_release_event_def
  by (auto simp: bind_res_eq_Inr Let_def)

lemma mapper_cases:
  assumes "GOGS_EVENT_FUNCTION_MAPPER lib event = Some handler"
  shows "event = ''push'' \<and> handler = handle_push_event lib \<or>
         event = ''create'' \<and> handler = handle_create_event lib \<or>
         event = ''pull_request'' \<and> handler = handle_pull_request_event lib \<or>
         event = ''issues'' \<and> handler = handle_issues_event lib \<or>
         event = ''issue_comment'' \<and> handler = handle_issue_comment_event lib \<or>
         event = ''release'' \<and> handler = handle_release_event lib"
  using assms unfolding GOGS_EVENT_FUNCTION_MAPPER_def
  by (simp split: if_splits)

lemma mapper_None:
  "GOGS_EVENT_FUNCTION_MAPPER lib event = None \<longleftrightarrow> event \<notin> set ALL_EVENT_TYPES"
  unfolding GOGS_EVENT_FUNCTION_MAPPER_def ALL_EVENT_TYPES_def
  by (simp add: map_of_eq_None_iff)

text \<open>
  Claim C7. Every handler of the dispatch table, on every helper for which it returns,
  returns a pair in which topic and body are both present or both absent.
\<close>

theorem handlers_both_or_neither:
  assumes "GOGS_EVENT_FUNCTION_MAPPER lib event = Some handler"
    and "handler helper = Inr (topic, body)"
  shows "(topic = None \<longleftrightarrow> body = None)"
proof -
  from mapper_cases [OF assms(1)] assms(2)
  consider "handle_push_event lib helper = Inr (topic, body)"
    | "handle_create_event lib helper = Inr (topic, body)"
    | "handle_pull_request_event lib helper = Inr (topic, body)"
    | "handle_issues_event lib helper = Inr (topic, body)"
    | "handle_issue_comment_event lib helper = Inr (topic, body)"
    | "handle_release_event lib helper = Inr (topic, body)"
    by auto
  then show ?thesis
  proof cases
    case 1
    from handle_push_event_Inr [OF 1] show ?thesis by (auto split: if_splits)
  next
    case 2
    from handle_create_event_Inr [OF 2] show ?thesis by auto
  next
    case 3
    from handle_pull_request_event_Inr [OF 3] show ?thesis by auto
  next
    case 4
    from handle_issues_event_Inr [OF 4] show ?thesis by auto
  next
    case 5
    from handle_issue_comment_event_Inr [OF 5] show ?thesis by auto
  next
    case 6
    from handle_release_event_Inr [OF 6] show ?thesis by auto
  qed
qed

lemma strip_dev: "str_replace ''refs/heads/'' [] ''refs/heads/dev'' = ''dev''"
  by code_simp

lemma create_eval:
  "handle_create_event sample_lib create_helper
     = Inr (Some ''repo / dev'', Some ''alice created dev r/src/dev'')"
  by (simp add: handle_create_event_def format_new_branch_event_def create_helper_def
      sample_defs extract_defs)

lemma filtered_push_eval:
  "handle_push_event sample_lib filtered_push_helper = Inr (None, None)"
  by (simp add: handle_push_event_def filtered_push_helper_def is_branch_name_notifiable_def
      sample_defs extract_defs strip_dev)

text \<open>A create event, which yields a topic and a body, and a push to a branch outside
  the allow-list, which yields neither.\<close>

theorem handlers_both_or_neither_witness:
  "GOGS_EVENT_FUNCTION_MAPPER sample_lib ''create'' = Some (handle_create_event sample_lib) \<and>
   handle_create_event sample_lib create_helper
     = Inr (Some ''repo / dev'', Some ''alice created dev r/src/dev'') \<and>
   (Some ''repo / dev'' = None \<longleftrightarrow> Some ''alice created dev r/src/dev'' = None) \<and>
   GOGS_EVENT_FUNCTION_MAPPER sample_lib ''push'' = Some (handle_push_event sample_lib) \<and>
   handle_push_event sample_lib filtered_push_helper = Inr (None, None) \<and>
   ((None :: string option) = None \<longleftrightarrow> (None :: string option) = None)"
proof -
  have create: "GOGS_EVENT_FUNCTION_MAPPER sample_lib ''create''
                  = Some (handle_create_event sample_lib)"
    and push: "GOGS_EVENT_FUNCTION_MAPPER sample_lib ''push'' = Some (handle_push_event sample_lib)"
    by (simp_all add: GOGS_EVENT_FUNCTION_MAPPER_def)
  note both = handlers_both_or_neither [OF create create_eval]
  note neither = handlers_both_or_neither [OF push filtered_push_eval]
  from create create_eval both push filtered_push_eval neither show ?thesis
    by (intro conjI)
qed

text \<open>
  Claim C5. The pull-request handler, the issues handler and, for a comment that is not
  a pull-request comment, the comment handler call their formatter on the payload with
  an include-title flag that is true exactly when the caller supplied a topic override
  (\<open>user_specified_topic is not None\<close>): each handler returns a topic and a body
  exactly when its formatter returns for that flag and the fields of the topic can be
  extracted, the body is then what the formatter returned, and an exception of the
  formatter for that flag is the exception of the handler.
\<close>

theorem include_title_iff_topic_override:
  "(handle_pull_request_event lib helper = Inr (topic, body) \<longleftrightarrow>
     (\<exists>shown pr_id title.
        h_format_pull_request_event helper (h_payload helper)
          (h_user_specified_topic helper \<noteq> None) = Inr shown \<and>
        tame (path (h_payload helper) [''pull_request'', ''id'']) check_int = Inr pr_id \<and>
        tame (path (h_payload helper) [''pull_request'', ''title'']) check_string = Inr title \<and>
        topic = Some (TOPIC_WITH_PR_OR_ISSUE_INFO_TEMPLATE lib (h_repo helper) ''PR'' pr_id title) \<and>
        body = Some shown)) \<and>
   (handle_issues_event lib helper = Inr (topic, body) \<longleftrightarrow>
     (\<exists>shown issue_nr title.
        format_issues_event lib (h_payload helper)
          (h_user_specified_topic helper \<noteq> None) = Inr shown \<and>
        tame (path (h_payload helper) [''issue'', ''number'']) check_int = Inr issue_nr \<and>
        tame (path (h_payload helper) [''issue'', ''title'']) check_string = Inr title \<and>
        topic = Some (TOPIC_WITH_PR_OR_ISSUE_INFO_TEMPLATE lib (h_repo helper) ''issue''
                        issue_nr title) \<and>
        body = Some shown)) \<and>
   (h_event_type helper \<noteq> ''pull_request_comment'' \<longrightarrow>
     (handle_issue_comment_event lib helper = Inr (topic, body) \<longleftrightarrow>
       (\<exists>shown repo issue_nr title.
          format_issue_comment_event lib (h_payload helper)
            (h_user_specified_topic helper \<noteq> None) = Inr shown \<and>
          tame (path (h_payload helper) [''repository'', ''name'']) check_string = Inr repo \<and>
          tame (path (h_payload helper) [''issue'', ''number'']) check_int = Inr issue_nr \<and>
          tame (path (h_payload helper) [''issue'', ''title'']) check_string = Inr title \<and>
          topic = Some (TOPIC_WITH_PR_OR_ISSUE_INFO_TEMPLATE lib repo ''issue'' issue_nr title) \<and>
          body = Some shown))) \<and>
   (h_format_pull_request_event helper (h_payload helper)
      (h_user_specified_topic helper \<noteq> None) = Inl e \<longrightarrow>
    handle_pull_request_event lib helper = Inl e) \<and>
   (format_issues_event lib (h_payload helper) (h_user_specified_topic helper \<noteq> None) = Inl e
      \<longrightarrow>
    handle_issues_event lib helper = Inl e) \<and>
   (h_event_type helper \<noteq> ''pull_request_comment'' \<longrightarrow>
    format_issue_comment_event lib (h_payload helper)
      (h_user_specified_topic helper \<noteq> None) = Inl e \<longrightarrow>
    handle_issue_comment_event lib helper = Inl e)"
proof (intro conjI impI)
  assume "h_format_pull_request_event helper (h_payload helper)
      (h_user_specified_topic helper \<noteq> None) = Inl e"
  then show "handle_pull_request_event lib helper = Inl e"
    by (simp add: handle_pull_request_event_def)
next
  assume "format_issues_event lib (h_payload helper) (h_user_specified_topic helper \<noteq> None)
            = Inl e"
  then show "handle_issues_event lib helper = Inl e"
    by (simp add: handle_issues_event_def)
next
  assume "h_event_type helper \<noteq> ''pull_request_comment''"
    and "format_issue_comment_event lib (h_payload helper)
      (h_user_specified_topic helper \<noteq> None) = Inl e"
  then show "handle_issue_comment_event lib helper = Inl e"
    by (simp add: handle_issue_comment_event_def)
next
  show "handle_pull_request_event lib helper = Inr (topic, body) \<longleftrightarrow>
     (\<exists>shown pr_id title.
        h_format_pull_request_event helper (h_payload helper)
          (h_user_specified_topic helper \<noteq> None) = Inr shown \<and>
        tame (path (h_payload helper) [''pull_request'', ''id'']) check_int = Inr pr_id \<and>
        tame (path (h_payload helper) [''pull_request'', ''title'']) check_string = Inr title \<and>
        topic = Some (TOPIC_WITH_PR_OR_ISSUE_INFO_TEMPLATE lib (h_repo helper) ''PR'' pr_id title) \<and>
        body = Some shown)"
    unfolding handle_pull_request_event_def
    by (auto simp: bind_res_eq_Inr Let_def)
next
  show "handle_issues_event lib helper = Inr (topic, body) \<longleftrightarrow>
     (\<exists>shown issue_nr title.
        format_issues_event lib (h_payload helper)
          (h_user_specified_topic helper \<noteq> None) = Inr shown \<and>
        tame (path (h_payload helper) [''issue'', ''number'']) check_int = Inr issue_nr \<and>
        tame (path (h_payload helper) [''issue'', ''title'']) check_string = Inr title \<and>
        topic = Some (TOPIC_WITH_PR_OR_ISSUE_INFO_TEMPLATE lib (h_repo helper) ''issue''
                        issue_nr title) \<and>
        body = Some shown)"
    unfolding handle_issues_event_def
    by (auto simp: bind_res_eq_Inr Let_def)
next
  assume "h_event_type helper \<noteq> ''pull_request_comment''"
  then show "handle_issue_comment_event lib helper = Inr (topic, body) \<longleftrightarrow>
       (\<exists>shown repo issue_nr title.
          format_issue_comment_event lib (h_payload helper)
            (h_user_specified_topic helper \<noteq> None) = Inr shown \<and>
          tame (path (h_payload helper) [''repository'', ''name'']) check_string = Inr repo \<and>
          tame (path (h_payload helper) [''issue'', ''number'']) check_int = Inr issue_nr \<and>
          tame (path (h_payload helper) [''issue'', ''title'']) check_string = Inr title \<and>
          topic = Some (TOPIC_WITH_PR_OR_ISSUE_INFO_TEMPLATE lib repo ''issue'' issue_nr title) \<and>
          body = Some shown)"
    unfolding handle_issue_comment_event_def
    by (auto simp: bind_res_eq_Inr Let_def)
qed

text \<open>A pull-request event with a topic override, whose body restates the title, and
  the same event without one, whose body does not; an issues event with an override; a
  comment event without one; and, for each handler, a payload of another kind, on which
  the formatter and hence the handler raise.\<close>

theorem include_title_iff_topic_override_witness:
  "handle_pull_request_event sample_lib titled_pr_helper
     = Inr (Some ''repo / PR #70 T'',
            Some ''PR: user_name=alice action=opened url=h number=7 target_branch=feature base_branch=main title=T assignee_updated=None'') \<and>
   (\<exists>shown pr_id title.
      h_format_pull_request_event titled_pr_helper (h_payload titled_pr_helper)
      (h_user_specified_topic titled_pr_helper \<noteq> None) = Inr shown \<and>
      tame (path (h_payload titled_pr_helper) [''pull_request'', ''id'']) check_int = Inr pr_id \<and>
      tame (path (h_payload titled_pr_helper) [''pull_request'', ''title'']) check_string = Inr title \<and>
      Some ''repo / PR #70 T'' = Some (TOPIC_WITH_PR_OR_ISSUE_INFO_TEMPLATE sample_lib (h_repo titled_pr_helper) ''PR'' pr_id title) \<and>
      Some ''PR: user_name=alice action=opened url=h number=7 target_branch=feature base_branch=main title=T assignee_updated=None'' = Some shown) \<and>
   handle_pull_request_event sample_lib plain_pr_helper
     = Inr (Some ''repo / PR #70 T'',
            Some ''PR: user_name=alice action=opened url=h number=7 target_branch=feature base_branch=main title=None assignee_updated=None'') \<and>
   (\<exists>shown pr_id title.
      h_format_pull_request_event plain_pr_helper (h_payload plain_pr_helper)
      (h_user_specified_topic plain_pr_helper \<noteq> None) = Inr shown \<and>
      tame (path (h_payload plain_pr_helper) [''pull_request'', ''id'']) check_int = Inr pr_id \<and>
      tame (path (h_payload plain_pr_helper) [''pull_request'', ''title'']) check_string = Inr title \<and>
      Some ''repo / PR #70 T'' = Some (TOPIC_WITH_PR_OR_ISSUE_INFO_TEMPLATE sample_lib (h_repo plain_pr_helper) ''PR'' pr_id title) \<and>
      Some ''PR: user_name=alice action=opened url=h number=7 target_branch=feature base_branch=main title=None assignee_updated=None'' = Some shown) \<and>
   handle_issues_event sample_lib titled_issue_helper
     = Inr (Some ''repo / issue #5 T'',
            Some ''issue: user_name=alice action=opened url=r/issues/5 number=5 message=text assignee=None title=T assignee_updated=None'') \<and>
   (\<exists>shown issue_nr title.
      format_issues_event sample_lib (h_payload titled_issue_helper)
      (h_user_specified_topic titled_issue_helper \<noteq> None) = Inr shown \<and>
      tame (path (h_payload titled_issue_helper) [''issue'', ''number'']) check_int = Inr issue_nr \<and>
      tame (path (h_payload titled_issue_helper) [''issue'', ''title'']) check_string = Inr title \<and>
      Some ''repo / issue #5 T'' = Some (TOPIC_WITH_PR_OR_ISSUE_INFO_TEMPLATE sample_lib (h_repo titled_issue_helper) ''issue''
      issue_nr title) \<and>
      Some ''issue: user_name=alice action=opened url=r/issues/5 number=5 message=text assignee=None title=T assignee_updated=None'' = Some shown) \<and>
   h_event_type plain_comment_helper \<noteq> ''pull_request_comment'' \<and>
   handle_issue_comment_event sample_lib plain_comment_helper
     = Inr (Some ''repo / issue #5 T'',
            Some ''issue: user_name=alice action=[commented](k) on url=r/issues/5 number=5 message=remark title=None'') \<and>
   (\<exists>shown repo issue_nr title.
      format_issue_comment_event sample_lib (h_payload plain_comment_helper)
      (h_user_specified_topic plain_comment_helper \<noteq> None) = Inr shown \<and>
      tame (path (h_payload plain_comment_helper) [''repository'', ''name'']) check_string = Inr repo \<and>
      tame (path (h_payload plain_comment_helper) [''issue'', ''number'']) check_int = Inr issue_nr \<and>
      tame (path (h_payload plain_comment_helper) [''issue'', ''title'']) check_string = Inr title \<and>
      Some ''repo / issue #5 T'' = Some (TOPIC_WITH_PR_OR_ISSUE_INFO_TEMPLATE sample_lib repo ''issue'' issue_nr title) \<and>
      Some ''issue: user_name=alice action=[commented](k) on url=r/issues/5 number=5 message=remark title=None'' = Some shown) \<and>
   h_format_pull_request_event plain_comment_helper (h_payload plain_comment_helper)
       (h_user_specified_topic plain_comment_helper \<noteq> None) = Inl SchemaViolation \<and>
   handle_pull_request_event sample_lib plain_comment_helper = Inl SchemaViolation \<and>
   format_issues_event sample_lib (h_payload plain_pr_helper)
       (h_user_specified_topic plain_pr_helper \<noteq> None) = Inl SchemaViolation \<and>
   handle_issues_event sample_lib plain_pr_helper = Inl SchemaViolation \<and>
   h_event_type plain_pr_helper \<noteq> ''pull_request_comment'' \<and>
   format_issue_comment_event sample_lib (h_payload plain_pr_helper)
       (h_user_specified_topic plain_pr_helper \<noteq> None) = Inl SchemaViolation \<and>
   handle_issue_comment_event sample_lib plain_pr_helper = Inl SchemaViolation"
proof -
  have titled_pr_run: "handle_pull_request_event sample_lib titled_pr_helper
     = Inr (Some ''repo / PR #70 T'',
            Some ''PR: user_name=alice action=opened url=h number=7 target_branch=feature base_branch=main title=T assignee_updated=None'')"
    by (simp add: handle_pull_request_event_def format_pull_request_event_def format_pull_request_event_args_def titled_pr_helper_def
        sample_defs extract_defs)
  have plain_pr_run: "handle_pull_request_event sample_lib plain_pr_helper
     = Inr (Some ''repo / PR #70 T'',
            Some ''PR: user_name=alice action=opened url=h number=7 target_branch=feature base_branch=main title=None assignee_updated=None'')"
    by (simp add: handle_pull_request_event_def format_pull_request_event_def format_pull_request_event_args_def plain_pr_helper_def
        sample_defs extract_defs)
  have titled_issue_run: "handle_issues_event sample_lib titled_issue_helper
     = Inr (Some ''repo / issue #5 T'',
            Some ''issue: user_name=alice action=opened url=r/issues/5 number=5 message=text assignee=None title=T assignee_updated=None'')"
    by (simp add: handle_issues_event_def format_issues_event_def format_issues_event_args_def titled_issue_helper_def
        sample_defs extract_defs)
  have plain_comment_run: "handle_issue_comment_event sample_lib plain_comment_helper
     = Inr (Some ''repo / issue #5 T'',
            Some ''issue: user_name=alice action=[commented](k) on url=r/issues/5 number=5 message=remark title=None'')"
    by (simp add: handle_issue_comment_event_def format_issue_comment_event_def format_issue_comment_event_args_def comment_action_text_def plain_comment_helper_def
        sample_defs extract_defs)
  have kind: "h_event_type plain_comment_helper \<noteq> ''pull_request_comment''"
    by (simp add: plain_comment_helper_def sample_helper_def)
  note titled_pr_use = include_title_iff_topic_override
    [THEN conjunct1, THEN iffD1, OF titled_pr_run]
  note plain_pr_use = include_title_iff_topic_override
    [THEN conjunct1, THEN iffD1, OF plain_pr_run]
  note titled_issue_use = include_title_iff_topic_override
    [THEN conjunct2, THEN conjunct1, THEN iffD1, OF titled_issue_run]
  note plain_comment_use = include_title_iff_topic_override
    [THEN conjunct2, THEN conjunct2, THEN conjunct1, THEN mp, OF kind, THEN iffD1, OF plain_comment_run]
  have pr_raises: "h_format_pull_request_event plain_comment_helper (h_payload plain_comment_helper)
       (h_user_specified_topic plain_comment_helper \<noteq> None) = Inl SchemaViolation"
    by (simp add: format_pull_request_event_def format_pull_request_event_args_def
        plain_comment_helper_def sample_defs extract_defs)
  have issues_raises: "format_issues_event sample_lib (h_payload plain_pr_helper)
       (h_user_specified_topic plain_pr_helper \<noteq> None) = Inl SchemaViolation"
    by (simp add: format_issues_event_def format_issues_event_args_def
        plain_pr_helper_def sample_defs extract_defs)
  have other_kind: "h_event_type plain_pr_helper \<noteq> ''pull_request_comment''"
    by (simp add: plain_pr_helper_def sample_helper_def)
  have comment_raises: "format_issue_comment_event sample_lib (h_payload plain_pr_helper)
       (h_user_specified_topic plain_pr_helper \<noteq> None) = Inl SchemaViolation"
    by (simp add: format_issue_comment_event_def format_issue_comment_event_args_def
        plain_pr_helper_def sample_defs extract_defs)
  note pr_raises_use = include_title_iff_topic_override
    [where lib = sample_lib, THEN conjunct2, THEN conjunct2, THEN conjunct2, THEN conjunct1,
     THEN mp, OF pr_raises]
  note issues_raises_use = include_title_iff_topic_override
    [THEN conjunct2, THEN conjunct2, THEN conjunct2, THEN conjunct2, THEN conjunct1,
     THEN mp, OF issues_raises]
  note comment_raises_use = include_title_iff_topic_override
    [THEN conjunct2, THEN conjunct2, THEN conjunct2, THEN conjunct2, THEN conjunct2,
     THEN mp, THEN mp, OF other_kind comment_raises]
  from titled_pr_run titled_pr_use plain_pr_run plain_pr_use titled_issue_run titled_issue_use kind plain_comment_run plain_comment_use
    pr_raises pr_raises_use issues_raises issues_raises_use
    other_kind comment_raises comment_raises_use
  show ?thesis by (intro conjI)
qed

subsection \<open>Comment events\<close>




subsection \<open>The exceptions of the handlers\<close>

text \<open>The formatters and handlers of the view raise schema violations and the index
  error of the commit transformation only; any other exception of the pull-request
  handler comes from the formatter handed in by the caller.\<close>

lemma data_errors_Inr: "data_errors (Inr v)"
  by (simp add: data_errors_def)

lemma data_errors_bind:
  "data_errors m \<Longrightarrow> (\<And>v. data_errors (f v)) \<Longrightarrow> data_errors (bind_res m f)"
  by (cases m) (simp_all add: data_errors_def)

lemma data_errors_if:
  "data_errors a \<Longrightarrow> data_errors b \<Longrightarrow> data_errors (if c then a else b)"
  by simp

lemma data_errors_let: "(\<And>x. data_errors (f x)) \<Longrightarrow> data_errors (Let y f)"
  by (simp add: Let_def)

lemma data_errors_case_prod:
  "(\<And>a b. data_errors (f a b)) \<Longrightarrow> data_errors (case_prod f p)"
  by (cases p) simp

lemma data_errors_getitem: "data_errors (getitem v key)"
  by (simp add: getitem_def data_errors_def split: json.splits option.splits)

lemma data_errors_path: "data_errors (path v ks)"
  by (induction ks arbitrary: v)
     (simp_all add: path.simps data_errors_Inr data_errors_bind data_errors_getitem)

lemma data_errors_check:
  "data_errors (check_string v)" "data_errors (check_int v)" "data_errors (check_bool v)"
  by (simp_all add: check_string_def check_int_def check_bool_def data_errors_def
      split: json.splits)

lemma data_errors_tame: "(\<And>v. data_errors (check v)) \<Longrightarrow> data_errors (tame (path v ks) check)"
  unfolding tame_def by (rule data_errors_bind) (rule data_errors_path)

lemma data_errors_iter: "data_errors (iter v)"
  by (simp add: iter_def data_errors_def split: json.splits)

lemma data_errors_first: "data_errors (first xs)"
  by (simp add: first_def data_errors_def split: list.splits)

lemma data_errors_map_res: "(\<And>x. data_errors (f x)) \<Longrightarrow> data_errors (map_res f xs)"
  by (induction xs) (simp_all add: data_errors_Inr data_errors_bind)

lemmas data_errors_intros = data_errors_Inr data_errors_bind data_errors_if data_errors_let
  data_errors_case_prod data_errors_getitem data_errors_path data_errors_check
  data_errors_tame data_errors_iter data_errors_first data_errors_map_res

lemma data_errors_transform_commit: "data_errors (transform_commit commit)"
  unfolding transform_commit_def by (intro data_errors_intros)

lemma data_errors_transform_commits:
  "data_errors (transform_commits_list_to_common_format commits)"
  unfolding transform_commits_list_to_common_format_def
  by (intro data_errors_intros data_errors_transform_commit)

lemma data_errors_format_push_event: "data_errors (format_push_event lib payload)"
  unfolding format_push_event_def
  by (intro data_errors_intros data_errors_transform_commits)

lemma data_errors_format_new_branch_event: "data_errors (format_new_branch_event lib payload)"
  unfolding format_new_branch_event_def by (intro data_errors_intros)

lemma data_errors_format_issues_event:
  "data_errors (format_issues_event lib payload include_title)"
  unfolding format_issues_event_def format_issues_event_args_def by (intro data_errors_intros)

lemma data_errors_format_issue_comment_event:
  "data_errors (format_issue_comment_event lib payload include_title)"
  unfolding format_issue_comment_event_def format_issue_comment_event_args_def
  by (intro data_errors_intros)

lemma data_errors_format_release_event:
  "data_errors (format_release_event lib payload include_title)"
  unfolding format_release_event_def by (intro data_errors_intros)

lemma data_errors_pull_request_comment_args: "data_errors (pull_request_comment_args payload)"
  unfolding pull_request_comment_args_def by (intro data_errors_intros)

lemma data_errors_handle_push_event: "data_errors (handle_push_event lib helper)"
  unfolding handle_push_event_def
  by (intro data_errors_intros data_errors_format_push_event)

lemma data_errors_handle_create_event: "data_errors (handle_create_event lib helper)"
  unfolding handle_create_event_def
  by (intro data_errors_intros data_errors_format_new_branch_event)

lemma data_errors_handle_issues_event: "data_errors (handle_issues_event lib helper)"
  unfolding handle_issues_event_def
  by (intro data_errors_intros data_errors_format_issues_event)

lemma data_errors_handle_issue_comment_event:
  "data_errors (handle_issue_comment_event lib helper)"
  unfolding handle_issue_comment_event_def
  by (intro data_errors_intros data_errors_format_issue_comment_event
      data_errors_pull_request_comment_args)

lemma data_errors_handle_release_event: "data_errors (handle_release_event lib helper)"
  unfolding handle_release_event_def
  by (intro data_errors_intros data_errors_format_release_event)

lemma not_data_error: "data_errors m \<Longrightarrow> m \<noteq> Inl (UnsupportedWebhookEventTypeError ev)"
  by (auto simp: data_errors_def)

lemma handle_pull_request_event_unsupported:
  "handle_pull_request_event lib helper = Inl (UnsupportedWebhookEventTypeError ev) \<longleftrightarrow>
     h_format_pull_request_event helper (h_payload helper)
       (h_user_specified_topic helper \<noteq> None) = Inl (UnsupportedWebhookEventTypeError ev)"
proof (cases "h_format_pull_request_event helper (h_payload helper)
                (h_user_specified_topic helper \<noteq> None)")
  case (Inl e)
  then show ?thesis by (simp add: handle_pull_request_event_def)
next
  case (Inr shown)
  have "data_errors (handle_pull_request_event lib helper)"
    unfolding handle_pull_request_event_def Inr by (intro data_errors_intros)
  from not_data_error [OF this] Inr show ?thesis by simp
qed

subsection \<open>The dispatcher\<close>

lemma nonempty_Some [simp]: "nonempty (Some s) \<longleftrightarrow> s \<noteq> []"
  and nonempty_None [simp]: "\<not> nonempty None"
  by (simp_all add: nonempty_def)

lemma gogs_dispatch_unknown:
  assumes "event \<notin> set ALL_EVENT_TYPES"
  shows "gogs_dispatch lib request user_profile helper event
           = Inl (UnsupportedWebhookEventTypeError event)"
proof -
  from assms have "GOGS_EVENT_FUNCTION_MAPPER lib event = None" by (simp add: mapper_None)
  then show ?thesis by (simp add: gogs_dispatch_def)
qed

lemma gogs_dispatch_returned:
  assumes "GOGS_EVENT_FUNCTION_MAPPER lib event = Some handler"
    and "handler helper = Inr (topic, body)"
  shows "gogs_dispatch lib request user_profile helper event =
           (if nonempty topic \<and> nonempty body
            then Inr [check_send_webhook_message request user_profile (the topic) (the body) event]
            else if event = ''push'' then Inr []
            else Inl (UnsupportedWebhookEventTypeError event))"
  using assms by (simp add: gogs_dispatch_def)

lemma gogs_dispatch_raised:
  assumes "GOGS_EVENT_FUNCTION_MAPPER lib event = Some handler"
    and "handler helper = Inl e"
  shows "gogs_dispatch lib request user_profile helper event = Inl e"
  using assms by (simp add: gogs_dispatch_def)

lemma other_handlers_return_strings:
  assumes "GOGS_EVENT_FUNCTION_MAPPER lib event = Some handler"
    and "event \<noteq> ''push''"
    and "handler helper = Inr (topic, body)"
  shows "\<exists>t b. topic = Some t \<and> body = Some b"
proof -
  from mapper_cases [OF assms(1)] assms(2,3)
  consider "handle_create_event lib helper = Inr (topic, body)"
    | "handle_pull_request_event lib helper = Inr (topic, body)"
    | "handle_issues_event lib helper = Inr (topic, body)"
    | "handle_issue_comment_event lib helper = Inr (topic, body)"
    | "handle_release_event lib helper = Inr (topic, body)"
    by auto
  then show ?thesis
  proof cases
    case 1
    from handle_create_event_Inr [OF 1] show ?thesis by auto
  next
    case 2
    from handle_pull_request_event_Inr [OF 2] show ?thesis by auto
  next
    case 3
    from handle_issues_event_Inr [OF 3] show ?thesis by auto
  next
    case 4
    from handle_issue_comment_event_Inr [OF 4] show ?thesis by auto
  next
    case 5
    from handle_release_event_Inr [OF 5] show ?thesis by auto
  qed
qed

lemma handler_unsupported:
  assumes "GOGS_EVENT_FUNCTION_MAPPER lib event = Some handler"
  shows "handler helper = Inl (UnsupportedWebhookEventTypeError ev) \<longleftrightarrow>
           event = ''pull_request'' \<and>
           h_format_pull_request_event helper (h_payload helper)
             (h_user_specified_topic helper \<noteq> None) = Inl (UnsupportedWebhookEventTypeError ev)"
  using mapper_cases [OF assms]
proof (elim disjE conjE)
  assume "event = ''push''" and "handler = handle_push_event lib"
  with not_data_error [OF data_errors_handle_push_event] show ?thesis by simp
next
  assume "event = ''create''" and "handler = handle_create_event lib"
  with not_data_error [OF data_errors_handle_create_event] show ?thesis by simp
next
  assume "event = ''pull_request''" and "handler = handle_pull_request_event lib"
  with handle_pull_request_event_unsupported show ?thesis by simp
next
  assume "event = ''issues''" and "handler = handle_issues_event lib"
  with not_data_error [OF data_errors_handle_issues_event] show ?thesis by simp
next
  assume "event = ''issue_comment''" and "handler = handle_issue_comment_event lib"
  with not_data_error [OF data_errors_handle_issue_comment_event] show ?thesis by simp
next
  assume "event = ''release''" and "handler = handle_release_event lib"
  with not_data_error [OF data_errors_handle_release_event] show ?thesis by simp
qed

text \<open>
  Claim C2, as the code has it. An event kind outside the six known ones has no handler
  and the dispatch fails with the unsupported-event error at once, whatever the helper
  holds. When a handler returns a non-empty topic and a non-empty body, exactly one
  message is delivered and the dispatch succeeds. The dispatch fails with the
  unsupported-event error for its event kind exactly when the kind is unknown, or the
  pull-request formatter handed in by the caller raises that error, or a handler other
  than the push handler returns a pair in which the topic or the body is the empty
  string. No handler other than the push handler returns a pair of two absent values,
  so the case the claim names never arises; the condition of the code is emptiness.
\<close>

theorem dispatch_unsupported_exactly:
  "(event \<notin> set ALL_EVENT_TYPES \<longrightarrow>
      GOGS_EVENT_FUNCTION_MAPPER lib event = None \<and>
      gogs_dispatch lib request user_profile helper event
        = Inl (UnsupportedWebhookEventTypeError event)) \<and>
   (\<forall>handler topic body.
      GOGS_EVENT_FUNCTION_MAPPER lib event = Some handler \<longrightarrow>
      handler helper = Inr (Some topic, Some body) \<longrightarrow> topic \<noteq> [] \<longrightarrow> body \<noteq> [] \<longrightarrow>
      gogs_dispatch lib request user_profile helper event
        = Inr [check_send_webhook_message request user_profile topic body event]) \<and>
   (gogs_dispatch lib request user_profile helper event
      = Inl (UnsupportedWebhookEventTypeError event) \<longleftrightarrow>
    event \<notin> set ALL_EVENT_TYPES \<or>
    event = ''pull_request'' \<and>
      h_format_pull_request_event helper (h_payload helper)
        (h_user_specified_topic helper \<noteq> None) = Inl (UnsupportedWebhookEventTypeError event) \<or>
    event \<noteq> ''push'' \<and>
      (\<exists>handler topic body.
         GOGS_EVENT_FUNCTION_MAPPER lib event = Some handler \<and>
         handler helper = Inr (Some topic, Some body) \<and> (topic = [] \<or> body = [])))"
proof (intro conjI allI impI)
  assume "event \<notin> set ALL_EVENT_TYPES"
  then show "GOGS_EVENT_FUNCTION_MAPPER lib event = None" by (simp add: mapper_None)
next
  assume "event \<notin> set ALL_EVENT_TYPES"
  then show "gogs_dispatch lib request user_profile helper event
        = Inl (UnsupportedWebhookEventTypeError event)"
    by (rule gogs_dispatch_unknown)
next
  fix handler topic body
  assume "GOGS_EVENT_FUNCTION_MAPPER lib event = Some handler"
    and "handler helper = Inr (Some topic, Some body)" and "topic \<noteq> []" and "body \<noteq> []"
  then show "gogs_dispatch lib request user_profile helper event
        = Inr [check_send_webhook_message request user_profile topic body event]"
    by (simp add: gogs_dispatch_returned)
next
  let ?unsupported = "gogs_dispatch lib request user_profile helper event
      = Inl (UnsupportedWebhookEventTypeError event)"
  let ?raised = "event = ''pull_request'' \<and>
      h_format_pull_request_event helper (h_payload helper)
        (h_user_specified_topic helper \<noteq> None) = Inl (UnsupportedWebhookEventTypeError event)"
  let ?empty = "event \<noteq> ''push'' \<and>
      (\<exists>handler topic body.
         GOGS_EVENT_FUNCTION_MAPPER lib event = Some handler \<and>
         handler helper = Inr (Some topic, Some body) \<and> (topic = [] \<or> body = []))"
  show "?unsupported \<longleftrightarrow> event \<notin> set ALL_EVENT_TYPES \<or> ?raised \<or> ?empty"
  proof (cases "GOGS_EVENT_FUNCTION_MAPPER lib event")
    case None
    then have unknown: "event \<notin> set ALL_EVENT_TYPES" by (simp add: mapper_None)
    from gogs_dispatch_unknown [OF unknown] have ?unsupported .
    with unknown show ?thesis by blast
  next
    case (Some handler)
    then have known: "\<not> event \<notin> set ALL_EVENT_TYPES"
      using mapper_None [of lib event] by simp
    show ?thesis
    proof (cases "handler helper")
      case (Inl e)
      have "gogs_dispatch lib request user_profile helper event = Inl e"
        by (rule gogs_dispatch_raised [OF Some Inl])
      then have "?unsupported \<longleftrightarrow> e = UnsupportedWebhookEventTypeError event"
        by simp
      moreover have "e = UnsupportedWebhookEventTypeError event \<longleftrightarrow> ?raised"
        using handler_unsupported [OF Some, of helper event] Inl by simp
      moreover have "\<not> ?empty"
        using Some Inl by simp
      ultimately show ?thesis using known by blast
    next
      case (Inr result)
      obtain topic body where result: "result = (topic, body)" by (cases result)
      note returned = Inr [unfolded result]
      have not_raised: "\<not> ?raised"
        using handler_unsupported [OF Some, of helper event] returned by simp
      note outcome = gogs_dispatch_returned [OF Some returned, of request user_profile]
      show ?thesis
      proof (cases "event = ''push''")
        case True
        with outcome have "\<not> ?unsupported" by simp
        moreover from True have "\<not> ?empty" by simp
        ultimately show ?thesis using known not_raised by blast
      next
        case False
        from other_handlers_return_strings [OF Some False returned]
        obtain t b where strings: "topic = Some t" "body = Some b" by blast
        from outcome False strings
        have "?unsupported \<longleftrightarrow> t = [] \<or> b = []"
          by simp
        moreover have "t = [] \<or> b = [] \<longleftrightarrow> ?empty"
          using False Some returned strings by simp
        ultimately show ?thesis using known not_raised by blast
      qed
    qed
  qed
qed

lemma gogs_webhook_main_resolved:
  assumes "tame (path payload [''repository'', ''name'']) check_string = Inr repo"
    and "request http_header_name = Some event"
  shows "gogs_webhook_main lib integration_name http_header_name formatter request user_profile
           payload branches user_specified_topic
         = gogs_dispatch lib request user_profile
             \<lparr>h_payload = payload,
              h_branches = branches,
              h_user_specified_topic = user_specified_topic,
              h_repo = repo,
              h_event_type = (case request ''x-gitea-event-type'' of
                                None \<Rightarrow> ''default_event_type'' | Some v \<Rightarrow> v),
              h_format_pull_request_event = formatter\<rparr>
             event"
  using assms
  by (simp add: gogs_webhook_main_def validate_extract_webhook_http_header_def
      split: option.splits)

lemma gogs_webhook_main_Inr:
  assumes "gogs_webhook_main lib integration_name http_header_name formatter request user_profile
             payload branches user_specified_topic = Inr msgs"
  shows "\<exists>repo event.
           tame (path payload [''repository'', ''name'']) check_string = Inr repo \<and>
           request http_header_name = Some event"
  using assms
  by (auto simp: gogs_webhook_main_def bind_res_eq_Inr validate_extract_webhook_http_header_def
      split: option.splits)

lemma gogs_dispatch_Inr:
  assumes "gogs_dispatch lib request user_profile helper event = Inr msgs"
  shows "\<exists>handler topic body.
           GOGS_EVENT_FUNCTION_MAPPER lib event = Some handler \<and>
           handler helper = Inr (topic, body) \<and>
           (if nonempty topic \<and> nonempty body
            then msgs = [check_send_webhook_message request user_profile (the topic) (the body)
                           event]
            else event = ''push'' \<and> msgs = [])"
proof (cases "GOGS_EVENT_FUNCTION_MAPPER lib event")
  case None
  with assms show ?thesis by (simp add: gogs_dispatch_def)
next
  case (Some handler)
  show ?thesis
  proof (cases "handler helper")
    case (Inl e)
    from gogs_dispatch_raised [OF Some Inl, of request user_profile] assms
    show ?thesis by simp
  next
    case (Inr result)
    obtain topic body where result: "result = (topic, body)" by (cases result)
    note returned = Inr [unfolded result]
    from gogs_dispatch_returned [OF Some returned, of request user_profile] assms
    have "if nonempty topic \<and> nonempty body
            then msgs = [check_send_webhook_message request user_profile (the topic) (the body)
                           event]
            else event = ''push'' \<and> msgs = []"
      by (simp split: if_splits)
    with Some returned show ?thesis by blast
  qed
qed

lemma nonempty_the: "nonempty x \<Longrightarrow> the x \<noteq> []"
  by (cases x) simp_all

text \<open>
  Claim C1, as the code has it. The branch of a push is the payload's ref with every
  occurrence of \<open>refs/heads/\<close> removed (\<open>str.replace\<close>), not only a leading one.
  When that branch does not pass the branch filter (a null allow-list passes every
  branch, so the allow-list is then present), the push handler returns two absent
  values, no message is delivered and the dispatch succeeds; so does the whole view once
  the repository name and the event header are there. For every other event kind a
  successful dispatch has delivered exactly one message, with a non-empty topic and a
  non-empty body.
\<close>

theorem filtered_push_is_silent_success:
  assumes "tame (path payload [''ref'']) check_string = Inr ref"
    and "\<not> is_branch_name_notifiable lib (str_replace ''refs/heads/'' [] ref) branches"
    and "h_payload helper = payload"
    and "h_branches helper = branches"
  shows "branches \<noteq> None \<and>
    handle_push_event lib helper = Inr (None, None) \<and>
    gogs_dispatch lib request user_profile helper ''push'' = Inr [] \<and>
    (tame (path payload [''repository'', ''name'']) check_string = Inr repo \<longrightarrow>
     request http_header_name = Some ''push'' \<longrightarrow>
       gogs_webhook_main lib integration_name http_header_name formatter request user_profile
         payload branches user_specified_topic = Inr []) \<and>
    (\<forall>event other msgs.
       event \<noteq> ''push'' \<longrightarrow>
       gogs_dispatch lib request user_profile other event = Inr msgs \<longrightarrow>
       (\<exists>topic body. topic \<noteq> [] \<and> body \<noteq> [] \<and>
          msgs = [check_send_webhook_message request user_profile topic body event]))"
proof -
  have filtered: "handle_push_event lib h = Inr (None, None)"
    if "h_payload h = payload" and "h_branches h = branches" for h
    using that assms(1,2) by (simp add: handle_push_event_def)
  have push: "GOGS_EVENT_FUNCTION_MAPPER lib ''push'' = Some (handle_push_event lib)"
    by (simp add: GOGS_EVENT_FUNCTION_MAPPER_def)
  have silent: "gogs_dispatch lib request user_profile h ''push'' = Inr []"
    if "h_payload h = payload" and "h_branches h = branches" for h
    using gogs_dispatch_returned [OF push filtered [OF that], of request user_profile]
    by simp
  have allow_list: "branches \<noteq> None"
    using assms(2) by (cases branches) (simp_all add: is_branch_name_notifiable_def)
  have whole: "tame (path payload [''repository'', ''name'']) check_string = Inr repo \<longrightarrow>
     request http_header_name = Some ''push'' \<longrightarrow>
       gogs_webhook_main lib integration_name http_header_name formatter request user_profile
         payload branches user_specified_topic = Inr []"
    by (simp add: gogs_webhook_main_resolved silent)
  have others: "\<forall>event other msgs.
       event \<noteq> ''push'' \<longrightarrow>
       gogs_dispatch lib request user_profile other event = Inr msgs \<longrightarrow>
       (\<exists>topic body. topic \<noteq> [] \<and> body \<noteq> [] \<and>
          msgs = [check_send_webhook_message request user_profile topic body event])"
  proof (intro allI impI)
    fix event other msgs
    assume other_kind: "event \<noteq> ''push''"
      and success: "gogs_dispatch lib request user_profile other event = Inr msgs"
    from gogs_dispatch_Inr [OF success] other_kind
    obtain topic body where "nonempty topic" and "nonempty body"
      and "msgs = [check_send_webhook_message request user_profile (the topic) (the body) event]"
      by (auto split: if_splits)
    then show "\<exists>topic body. topic \<noteq> [] \<and> body \<noteq> [] \<and>
          msgs = [check_send_webhook_message request user_profile topic body event]"
      using nonempty_the by blast
  qed
  from allow_list filtered [OF assms(3,4)] silent [OF assms(3,4)] whole others
  show ?thesis by (intro conjI)
qed

subsection \<open>The repository name of a comment topic\<close>

lemma handle_issue_comment_event_ctx_eq:
  assumes "tame (path (h_payload helper) [''repository'', ''name'']) check_string
             = Inr (h_repo helper)"
  shows "handle_issue_comment_event_ctx lib helper = handle_issue_comment_event lib helper"
  using assms
  by (simp add: handle_issue_comment_event_ctx_def handle_issue_comment_event_def)

lemma bind_res_assoc: "bind_res (bind_res m f) g = bind_res m (\<lambda>x. bind_res (f x) g)"
  by (cases m) simp_all

lemma gogs_webhook_main_dispatches:
  "gogs_webhook_main lib integration_name http_header_name formatter request user_profile
     payload branches user_specified_topic
   = bind_res (gogs_helper integration_name http_header_name formatter request payload branches
                 user_specified_topic)
       (\<lambda>(helper, event). gogs_dispatch lib request user_profile helper event)"
  by (simp add: gogs_webhook_main_def gogs_helper_def bind_res_assoc Let_def)

lemma gogs_helper_Inr:
  assumes "gogs_helper integration_name http_header_name formatter request payload branches
             user_specified_topic = Inr (helper, event)"
  shows "h_payload helper = payload \<and>
         tame (path payload [''repository'', ''name'']) check_string = Inr (h_repo helper) \<and>
         request http_header_name = Some event"
  using assms
  by (auto simp: gogs_helper_def bind_res_eq_Inr validate_extract_webhook_http_header_def
      Let_def split: option.splits)

text \<open>
  Claim C9. \<open>gogs_webhook_main\<close> is the construction of the helper followed by the
  dispatch on that helper. The helper built holds the payload and, as its repository
  name, the string read from \<open>payload["repository"]["name"]\<close>, the field the comment
  handler reads again: on it the comment handler agrees with its variant that takes the
  name from the helper, as the other handlers do, and every topic it returns is built
  from the helper's name. When the view handles a comment event successfully, the one
  delivered message has the topic the comment handler returned for the helper built.
\<close>

theorem issue_comment_topic_uses_resolved_repo:
  "gogs_webhook_main lib integration_name http_header_name formatter request user_profile
     payload branches user_specified_topic
   = bind_res (gogs_helper integration_name http_header_name formatter request payload branches
                 user_specified_topic)
       (\<lambda>(helper, event). gogs_dispatch lib request user_profile helper event) \<and>
   (gogs_helper integration_name http_header_name formatter request payload branches
      user_specified_topic = Inr (helper, event) \<longrightarrow>
    h_payload helper = payload \<and>
    tame (path payload [''repository'', ''name'']) check_string = Inr (h_repo helper) \<and>
    request http_header_name = Some event \<and>
    handle_issue_comment_event_ctx lib helper = handle_issue_comment_event lib helper \<and>
    (\<forall>topic body.
       handle_issue_comment_event lib helper = Inr (topic, body) \<longrightarrow>
       (\<exists>topic_type issue_nr title.
          topic = Some (TOPIC_WITH_PR_OR_ISSUE_INFO_TEMPLATE lib (h_repo helper) topic_type
                          issue_nr title)))) \<and>
   (gogs_webhook_main lib integration_name http_header_name formatter request user_profile
      payload branches user_specified_topic = Inr msgs \<longrightarrow>
    request http_header_name = Some ''issue_comment'' \<longrightarrow>
    (\<exists>built topic_type issue_nr title body.
       gogs_helper integration_name http_header_name formatter request payload branches
         user_specified_topic = Inr (built, ''issue_comment'') \<and>
       handle_issue_comment_event lib built
         = Inr (Some (TOPIC_WITH_PR_OR_ISSUE_INFO_TEMPLATE lib (h_repo built) topic_type
                        issue_nr title), Some body) \<and>
       msgs = [check_send_webhook_message request user_profile
                 (TOPIC_WITH_PR_OR_ISSUE_INFO_TEMPLATE lib (h_repo built) topic_type
                    issue_nr title) body ''issue_comment'']))"
proof (intro conjI impI)
  show "gogs_webhook_main lib integration_name http_header_name formatter request user_profile
     payload branches user_specified_topic
   = bind_res (gogs_helper integration_name http_header_name formatter request payload branches
                 user_specified_topic)
       (\<lambda>(helper, event). gogs_dispatch lib request user_profile helper event)"
    by (rule gogs_webhook_main_dispatches)
next
  assume built: "gogs_helper integration_name http_header_name formatter request payload branches
      user_specified_topic = Inr (helper, event)"
  note fields = gogs_helper_Inr [OF built]
  from fields show "h_payload helper = payload" by simp
  from fields
  show "tame (path payload [''repository'', ''name'']) check_string = Inr (h_repo helper)"
    by simp
  from fields show "request http_header_name = Some event" by simp
  from fields
  show same: "handle_issue_comment_event_ctx lib helper = handle_issue_comment_event lib helper"
    by (intro handle_issue_comment_event_ctx_eq) simp
  show "\<forall>topic body.
       handle_issue_comment_event lib helper = Inr (topic, body) \<longrightarrow>
       (\<exists>topic_type issue_nr title.
          topic = Some (TOPIC_WITH_PR_OR_ISSUE_INFO_TEMPLATE lib (h_repo helper) topic_type
                          issue_nr title))"
  proof (intro allI impI)
    fix topic body
    assume "handle_issue_comment_event lib helper = Inr (topic, body)"
    from handle_issue_comment_event_Inr [OF this] fields
    show "\<exists>topic_type issue_nr title.
          topic = Some (TOPIC_WITH_PR_OR_ISSUE_INFO_TEMPLATE lib (h_repo helper) topic_type
                          issue_nr title)"
      by auto
  qed
next
  assume success: "gogs_webhook_main lib integration_name http_header_name formatter request
      user_profile payload branches user_specified_topic = Inr msgs"
    and header: "request http_header_name = Some ''issue_comment''"
  from success obtain built event where
    built: "gogs_helper integration_name http_header_name formatter request payload branches
              user_specified_topic = Inr (built, event)"
    and dispatched: "gogs_dispatch lib request user_profile built event = Inr msgs"
    unfolding gogs_webhook_main_dispatches bind_res_eq_Inr by auto
  note fields = gogs_helper_Inr [OF built]
  from fields header have event: "event = ''issue_comment''" by simp
  have comment: "GOGS_EVENT_FUNCTION_MAPPER lib ''issue_comment''
                   = Some (handle_issue_comment_event lib)"
    by (simp add: GOGS_EVENT_FUNCTION_MAPPER_def)
  from gogs_dispatch_Inr [OF dispatched [unfolded event]] comment
  obtain topic body where returned: "handle_issue_comment_event lib built = Inr (topic, body)"
    and sent: "msgs = [check_send_webhook_message request user_profile (the topic) (the body)
                         ''issue_comment'']"
    by (auto split: if_splits)
  from handle_issue_comment_event_Inr [OF returned] fields
  obtain shown topic_type issue_nr title where
    topic: "topic = Some (TOPIC_WITH_PR_OR_ISSUE_INFO_TEMPLATE lib (h_repo built) topic_type
                            issue_nr title)"
    and body: "body = Some shown"
    by auto
  show "\<exists>built topic_type issue_nr title body.
       gogs_helper integration_name http_header_name formatter request payload branches
         user_specified_topic = Inr (built, ''issue_comment'') \<and>
       handle_issue_comment_event lib built
         = Inr (Some (TOPIC_WITH_PR_OR_ISSUE_INFO_TEMPLATE lib (h_repo built) topic_type
                        issue_nr title), Some body) \<and>
       msgs = [check_send_webhook_message request user_profile
                 (TOPIC_WITH_PR_OR_ISSUE_INFO_TEMPLATE lib (h_repo built) topic_type
                    issue_nr title) body ''issue_comment'']"
  proof (intro exI conjI)
    show "gogs_helper integration_name http_header_name formatter request payload branches
            user_specified_topic = Inr (built, ''issue_comment'')"
      using built event by simp
    show "handle_issue_comment_event lib built
            = Inr (Some (TOPIC_WITH_PR_OR_ISSUE_INFO_TEMPLATE lib (h_repo built) topic_type
                           issue_nr title), Some shown)"
      using returned topic body by simp
    show "msgs = [check_send_webhook_message request user_profile
                    (TOPIC_WITH_PR_OR_ISSUE_INFO_TEMPLATE lib (h_repo built) topic_type
                       issue_nr title) shown ''issue_comment'']"
      using sent topic body by simp
  qed
qed

subsection \<open>The view on the sample deliveries\<close>

lemmas view_defs = api_gogs_webhook_def gogs_webhook_main_def gogs_dispatch_def
  GOGS_EVENT_FUNCTION_MAPPER_def validate_extract_webhook_http_header_def
  check_send_webhook_message_def nonempty_def is_branch_name_notifiable_def
  handle_push_event_def handle_create_event_def handle_pull_request_event_def
  handle_issues_event_def handle_issue_comment_event_def handle_release_event_def
  format_push_event_def format_new_branch_event_def format_pull_request_event_def
  format_pull_request_event_args_def format_issues_event_def format_issues_event_args_def
  format_issue_comment_event_def format_issue_comment_event_args_def
  format_release_event_def pull_request_comment_args_def comment_action_text_def
  transform_commits_list_to_common_format_def transform_commit_def

lemma strip_inner: "str_replace ''refs/heads/'' [] ''refs/heads/refs/heads/x'' = ''x''"
  by code_simp

text \<open>The claim C1 as stated, with the branch read as the ref without its leading
  \<open>refs/heads/\<close>, fails: for the ref \<open>refs/heads/refs/heads/x\<close> and the allow-list
  \<open>x\<close> that branch is \<open>refs/heads/x\<close> and does not pass, yet the view removes both
  occurrences, finds \<open>x\<close> in the allow-list and delivers a message.\<close>

theorem inner_refs_heads_counterexample:
  "tame (path inner_ref_push [''ref'']) check_string = Inr ''refs/heads/refs/heads/x'' \<and>
   strip_refs_heads_prefix ''refs/heads/refs/heads/x'' = ''refs/heads/x'' \<and>
   \<not> is_branch_name_notifiable sample_lib
        (strip_refs_heads_prefix ''refs/heads/refs/heads/x'') (Some ''x'') \<and>
   handle_push_event sample_lib (sample_helper inner_ref_push (Some ''x'') None ''default_event_type'')
     = Inr (Some ''repo / x'', Some ''alice pushed to x:'') \<and>
   api_gogs_webhook sample_lib (sample_request ''push'' None) () inner_ref_push (Some ''x'') None
     = Inr [\<lparr>m_recipient = (), m_topic_name = ''repo / x'', m_body = ''alice pushed to x:'',
              m_event = ''push''\<rparr>]"
  by (simp add: view_defs inner_ref_push_def strip_refs_heads_prefix_def sample_defs
      extract_defs strip_inner)

text \<open>A push to \<open>dev\<close> under the allow-list \<open>main\<close>, and a create event for
  comparison.\<close>

theorem filtered_push_is_silent_success_witness:
  "tame (path dev_push [''ref'']) check_string = Inr ''refs/heads/dev'' \<and>
   \<not> is_branch_name_notifiable sample_lib (str_replace ''refs/heads/'' [] ''refs/heads/dev'')
        (Some ''main'') \<and>
   h_payload filtered_push_helper = dev_push \<and>
   h_branches filtered_push_helper = Some ''main'' \<and>
   handle_push_event sample_lib filtered_push_helper = Inr (None, None) \<and>
   gogs_dispatch sample_lib (sample_request ''push'' None) () filtered_push_helper ''push'' = Inr [] \<and>
   tame (path dev_push [''repository'', ''name'']) check_string = Inr ''repo'' \<and>
   sample_request ''push'' None ''X-Gogs-Event'' = Some ''push'' \<and>
   gogs_webhook_main sample_lib ''Gogs'' ''X-Gogs-Event'' (format_pull_request_event sample_lib)
     (sample_request ''push'' None) () dev_push (Some ''main'') None = Inr [] \<and>
   ''create'' \<noteq> ''push'' \<and>
   gogs_dispatch sample_lib (sample_request ''push'' None) () create_helper ''create''
     = Inr [created_message] \<and>
   (\<exists>topic body. topic \<noteq> [] \<and> body \<noteq> [] \<and>
      [created_message]
        = [check_send_webhook_message (sample_request ''push'' None) () topic body ''create''])"
proof -
  have ref: "tame (path dev_push [''ref'']) check_string = Inr ''refs/heads/dev''"
    by (simp add: dev_push_def sample_defs extract_defs)
  have filtered: "\<not> is_branch_name_notifiable sample_lib
                     (str_replace ''refs/heads/'' [] ''refs/heads/dev'') (Some ''main'')"
    by (simp add: is_branch_name_notifiable_def sample_lib_def strip_dev)
  have payload: "h_payload filtered_push_helper = dev_push"
    and branches: "h_branches filtered_push_helper = Some ''main''"
    by (simp_all add: filtered_push_helper_def dev_push_def sample_helper_def)
  have repo: "tame (path dev_push [''repository'', ''name'']) check_string = Inr ''repo''"
    by (simp add: dev_push_def sample_defs extract_defs)
  have header: "sample_request ''push'' None ''X-Gogs-Event'' = Some ''push''"
    by (simp add: sample_request_def)
  have other_kind: "''create'' \<noteq> ''push''" by simp
  have created: "gogs_dispatch sample_lib (sample_request ''push'' None) () create_helper ''create''
                   = Inr [created_message]"
    by (simp add: view_defs create_helper_def created_message_def sample_defs extract_defs)
  note use = filtered_push_is_silent_success
    [where lib = sample_lib and request = "sample_request ''push'' None" and user_profile = "()"
       and repo = "''repo''" and http_header_name = "''X-Gogs-Event''"
       and integration_name = "''Gogs''" and formatter = "format_pull_request_event sample_lib"
       and user_specified_topic = None,
     OF ref filtered payload branches]
  note handler = use [THEN conjunct2, THEN conjunct1]
  note dispatch = use [THEN conjunct2, THEN conjunct2, THEN conjunct1]
  note whole = use [THEN conjunct2, THEN conjunct2, THEN conjunct2, THEN conjunct1,
    THEN mp, THEN mp, OF repo header]
  note others = use [THEN conjunct2, THEN conjunct2, THEN conjunct2, THEN conjunct2,
    THEN spec, THEN spec, THEN spec, THEN mp, THEN mp, OF other_kind created]
  from ref filtered payload branches handler dispatch repo header whole other_kind created others
  show ?thesis by (intro conjI)
qed

text \<open>The claim C2 as stated fails: with a pull-request formatter that returns the empty
  string, the event kind is known and the handler returns a topic and an empty body,
  not two absent values, yet the dispatch fails with the unsupported-event error.\<close>

theorem empty_body_unsupported_counterexample:
  "''pull_request'' \<in> set ALL_EVENT_TYPES \<and>
   GOGS_EVENT_FUNCTION_MAPPER sample_lib ''pull_request''
     = Some (handle_pull_request_event sample_lib) \<and>
   handle_pull_request_event sample_lib silent_helper = Inr (Some ''repo / PR #70 T'', Some []) \<and>
   handle_pull_request_event sample_lib silent_helper \<noteq> Inr (None, None) \<and>
   gogs_dispatch sample_lib (sample_request ''pull_request'' None) () silent_helper ''pull_request''
     = Inl (UnsupportedWebhookEventTypeError ''pull_request'') \<and>
   gogs_webhook_main sample_lib ''Gogs'' ''X-Gogs-Event'' silent_formatter
       (sample_request ''pull_request'' None) () (pr_payload False (JStr ''opened'') JNull)
       None None
     = Inl (UnsupportedWebhookEventTypeError ''pull_request'')"
  by (simp add: view_defs ALL_EVENT_TYPES_def silent_helper_def silent_formatter_def
      sample_defs extract_defs)

text \<open>An unknown event kind, and a create event that delivers its message.\<close>

theorem dispatch_unsupported_exactly_witness:
  "''unknown_event'' \<notin> set ALL_EVENT_TYPES \<and>
   GOGS_EVENT_FUNCTION_MAPPER sample_lib ''unknown_event'' = None \<and>
   gogs_dispatch sample_lib (sample_request ''unknown_event'' None) () create_helper
       ''unknown_event''
     = Inl (UnsupportedWebhookEventTypeError ''unknown_event'') \<and>
   GOGS_EVENT_FUNCTION_MAPPER sample_lib ''create'' = Some (handle_create_event sample_lib) \<and>
   handle_create_event sample_lib create_helper
     = Inr (Some ''repo / dev'', Some ''alice created dev r/src/dev'') \<and>
   ''repo / dev'' \<noteq> [] \<and> ''alice created dev r/src/dev'' \<noteq> [] \<and>
   gogs_dispatch sample_lib (sample_request ''create'' None) () create_helper ''create''
     = Inr [check_send_webhook_message (sample_request ''create'' None) () ''repo / dev''
              ''alice created dev r/src/dev'' ''create'']"
proof -
  have unknown: "''unknown_event'' \<notin> set ALL_EVENT_TYPES"
    by (simp add: ALL_EVENT_TYPES_def)
  have create: "GOGS_EVENT_FUNCTION_MAPPER sample_lib ''create''
                  = Some (handle_create_event sample_lib)"
    by (simp add: GOGS_EVENT_FUNCTION_MAPPER_def)
  have topic: "''repo / dev'' \<noteq> []" and body: "''alice created dev r/src/dev'' \<noteq> []"
    by simp_all
  note no_handler = dispatch_unsupported_exactly
    [where event = "''unknown_event''" and lib = sample_lib
       and request = "sample_request ''unknown_event'' None" and user_profile = "()"
       and helper = create_helper,
     THEN conjunct1, THEN mp, OF unknown]
  note delivered = dispatch_unsupported_exactly
    [where event = "''create''" and lib = sample_lib
       and request = "sample_request ''create'' None" and user_profile = "()"
       and helper = create_helper,
     THEN conjunct2, THEN conjunct1, THEN spec, THEN spec, THEN spec,
     THEN mp, THEN mp, THEN mp, THEN mp, OF create create_eval topic body]
  from unknown no_handler [THEN conjunct1] no_handler [THEN conjunct2] create create_eval
    topic body delivered
  show ?thesis by (intro conjI)
qed

text \<open>A comment on an issue of the repository \<open>repo\<close>: the helper built, and the
  message delivered by the view.\<close>

theorem issue_comment_topic_uses_resolved_repo_witness:
  "gogs_helper ''Gogs'' ''X-Gogs-Event'' (format_pull_request_event sample_lib)
     (sample_request ''issue_comment'' None) (issue_payload ''created'') None None
     = Inr (plain_comment_helper, ''issue_comment'') \<and>
   h_repo plain_comment_helper = ''repo'' \<and>
   h_payload plain_comment_helper = issue_payload ''created'' \<and>
   tame (path (issue_payload ''created'') [''repository'', ''name'']) check_string
     = Inr (h_repo plain_comment_helper) \<and>
   sample_request ''issue_comment'' None ''X-Gogs-Event'' = Some ''issue_comment'' \<and>
   handle_issue_comment_event_ctx sample_lib plain_comment_helper
     = handle_issue_comment_event sample_lib plain_comment_helper \<and>
   handle_issue_comment_event sample_lib plain_comment_helper
     = Inr (Some ''repo / issue #5 T'',
            Some ''issue: user_name=alice action=[commented](k) on url=r/issues/5 number=5 message=remark title=None'') \<and>
   (\<exists>topic_type issue_nr title.
      Some ''repo / issue #5 T''
        = Some (TOPIC_WITH_PR_OR_ISSUE_INFO_TEMPLATE sample_lib (h_repo plain_comment_helper)
                  topic_type issue_nr title)) \<and>
   gogs_webhook_main sample_lib ''Gogs'' ''X-Gogs-Event'' (format_pull_request_event sample_lib)
     (sample_request ''issue_comment'' None) () (issue_payload ''created'') None None
     = Inr [comment_message] \<and>
   (\<exists>built topic_type issue_nr title body.
      gogs_helper ''Gogs'' ''X-Gogs-Event'' (format_pull_request_event sample_lib)
        (sample_request ''issue_comment'' None) (issue_payload ''created'') None None
        = Inr (built, ''issue_comment'') \<and>
      handle_issue_comment_event sample_lib built
        = Inr (Some (TOPIC_WITH_PR_OR_ISSUE_INFO_TEMPLATE sample_lib (h_repo built) topic_type
                       issue_nr title), Some body) \<and>
      [comment_message]
        = [check_send_webhook_message (sample_request ''issue_comment'' None) ()
             (TOPIC_WITH_PR_OR_ISSUE_INFO_TEMPLATE sample_lib (h_repo built) topic_type
                issue_nr title) body ''issue_comment''])"
proof -
  have built: "gogs_helper ''Gogs'' ''X-Gogs-Event'' (format_pull_request_event sample_lib)
     (sample_request ''issue_comment'' None) (issue_payload ''created'') None None
     = Inr (plain_comment_helper, ''issue_comment'')"
    by (simp add: gogs_helper_def validate_extract_webhook_http_header_def
        plain_comment_helper_def sample_defs extract_defs)
  have repo: "h_repo plain_comment_helper = ''repo''"
    by (simp add: plain_comment_helper_def sample_helper_def)
  have returned: "handle_issue_comment_event sample_lib plain_comment_helper
     = Inr (Some ''repo / issue #5 T'',
            Some ''issue: user_name=alice action=[commented](k) on url=r/issues/5 number=5 message=remark title=None'')"
    by (simp add: handle_issue_comment_event_def format_issue_comment_event_def
        format_issue_comment_event_args_def comment_action_text_def
        plain_comment_helper_def sample_defs extract_defs)
  have success: "gogs_webhook_main sample_lib ''Gogs'' ''X-Gogs-Event''
       (format_pull_request_event sample_lib) (sample_request ''issue_comment'' None) ()
       (issue_payload ''created'') None None = Inr [comment_message]"
    by (simp add: view_defs comment_message_def sample_defs extract_defs)
  note stored = issue_comment_topic_uses_resolved_repo
    [where lib = sample_lib and request = "sample_request ''issue_comment'' None"
       and http_header_name = "''X-Gogs-Event''",
     THEN conjunct2, THEN conjunct1, THEN mp, OF built]
  note payload = stored [THEN conjunct1]
  note same_field = stored [THEN conjunct2, THEN conjunct1]
  note header = stored [THEN conjunct2, THEN conjunct2, THEN conjunct1]
  note same_handler = stored [THEN conjunct2, THEN conjunct2, THEN conjunct2, THEN conjunct1]
  note topic = stored [THEN conjunct2, THEN conjunct2, THEN conjunct2, THEN conjunct2,
    THEN spec, THEN spec, THEN mp, OF returned]
  note delivered = issue_comment_topic_uses_resolved_repo
    [where request = "sample_request ''issue_comment'' None"
       and http_header_name = "''X-Gogs-Event''",
     THEN conjunct2, THEN conjunct2, THEN mp, THEN mp, OF success header]
  from built repo payload same_field header same_handler returned topic success delivered
  show ?thesis by (intro conjI)
qed

end
